theory Spec2Isabelle
  imports Main "HOL-Library.Word"
begin

unbundle bit_operations_syntax

section \<open>Vector values and the delta engine of ubridge.c\<close>

subsection \<open>C strings\<close>

text \<open>
  An item of a vector value is an iovec: the \<open>iov_len\<close> bytes at \<open>iov_base\<close>, a
  string with its terminating NUL for the items the delta engine handles. \<open>strcmp\<close>
  reads both arguments up to their first NUL byte (\<open>c_str\<close>) and returns the difference
  of the first pair of differing bytes, read as unsigned chars; only its sign is used by the
  callers.
\<close>

definition c_str :: "string \<Rightarrow> string" where
  "c_str s = takeWhile (\<lambda>c. c \<noteq> CHR 0x00) s"

fun bytes_cmp :: "string \<Rightarrow> string \<Rightarrow> int" where
  "bytes_cmp [] [] = 0"
| "bytes_cmp [] (y # ys) = - int (of_char y)"
| "bytes_cmp (x # xs) [] = int (of_char x)"
| "bytes_cmp (x # xs) (y # ys) =
     (if x = y then bytes_cmp xs ys else int (of_char x) - int (of_char y))"

definition strcmp :: "string \<Rightarrow> string \<Rightarrow> int" where
  "strcmp a b = bytes_cmp (c_str a) (c_str b)"

subsection \<open>Vector values\<close>

text \<open>
  A vector value is an iovec array whose first four slots (\<open>VVALUE_IDX_GENNUM\<close>,
  \<open>VVALUE_IDX_SEQNUM\<close>, \<open>VVALUE_IDX_FLAGS\<close>, \<open>VVALUE_IDX_OWNER\<close>) are the header;
  the data items start at \<open>VVALUE_IDX_DATA = 4\<close>. The record keeps the four header slots as
  fields and the data items as a list, so that the size of the vector is
  \<open>VVALUE_HEADER_CNT + length items\<close>.
\<close>

record vvalue =
  gennum :: "16 word"
  seqnum :: "64 word"
  flags :: "64 word"
  owner :: string
  items :: "string list"

definition VVALUE_HEADER_CNT :: nat where
  "VVALUE_HEADER_CNT = 4"

definition VVALUE_SINGLE_CNT :: nat where
  "VVALUE_SINGLE_CNT = 5"

definition vsize :: "vvalue \<Rightarrow> nat" where
  "vsize v = VVALUE_HEADER_CNT + length (items v)"

datatype kv_op_t = KV_OP_ILLEGAL | KV_OP_SET | KV_OP_PLUS | KV_OP_MINUS

text \<open>
  \<open>struct kv_delta\<close>: the three buffers are vector buffers that start with a copy of the
  header; \<open>None\<close> is the NULL pointer. \<open>delta_flags\<close> is the \<open>delta_flags_t\<close> bit mask
  (\<open>DELTA_WITH_DIFF = 1\<close>, \<open>DELTA_WITH_REL = 2\<close>).
\<close>

record kv_delta =
  delta_op :: kv_op_t
  delta_flags :: nat
  delta_plus :: "vvalue option"
  delta_minus :: "vvalue option"
  delta_final :: "vvalue option"

definition sid_buffer_count :: "vvalue \<Rightarrow> nat" where
  "sid_buffer_count b = vsize b"

text \<open>
  Modelled from the spec: base/buffer.c is not part of the sources. \<open>sid_buffer_add\<close> on a
  vector buffer appends one slot; allocation never fails here. Adding to a buffer that was
  never created has no defined result in the source and is a failure in the model.
\<close>

definition sid_buffer_add :: "vvalue option \<Rightarrow> string \<Rightarrow> vvalue option" where
  "sid_buffer_add buf x =
     (case buf of None \<Rightarrow> None | Some b \<Rightarrow> Some (b\<lparr>items := items b @ [x]\<rparr>))"

definition destroy_delta_buffers :: "kv_delta \<Rightarrow> kv_delta" where
  "destroy_delta_buffers d = d\<lparr>delta_plus := None, delta_minus := None, delta_final := None\<rparr>"

definition destroy_unused :: "vvalue option \<Rightarrow> vvalue option" where
  "destroy_unused buf =
     (case buf of None \<Rightarrow> None
      | Some b \<Rightarrow> if sid_buffer_count b < VVALUE_SINGLE_CNT then None else Some b)"

definition destroy_unused_delta_buffers :: "kv_delta \<Rightarrow> kv_delta" where
  "destroy_unused_delta_buffers d =
     d\<lparr>delta_plus := destroy_unused (delta_plus d), delta_minus := destroy_unused (delta_minus d)\<rparr>"

text \<open>
  \<open>_init_delta_buffer\<close>: no buffer for size 0, \<open>-EINVAL\<close> for a size below the header
  count, otherwise a buffer holding the header slots of \<open>vheader\<close>. The outer option is the
  failure (\<open>r < 0\<close>).
\<close>

definition init_delta_buffer :: "vvalue \<Rightarrow> nat \<Rightarrow> vvalue option option" where
  "init_delta_buffer vheader sz =
     (if sz = 0 then Some None
      else if sz < VVALUE_HEADER_CNT then None
      else Some (Some (vheader\<lparr>items := []\<rparr>)))"

definition init_delta_buffers ::
  "kv_delta \<Rightarrow> vvalue \<Rightarrow> nat \<Rightarrow> nat \<Rightarrow> nat \<Rightarrow> kv_delta option" where
  "init_delta_buffers delta vheader minus_size plus_size final_size =
     (case init_delta_buffer vheader plus_size of
        None \<Rightarrow> None
      | Some p \<Rightarrow>
          (case init_delta_buffer vheader minus_size of
             None \<Rightarrow> None
           | Some m \<Rightarrow>
               (case init_delta_buffer vheader final_size of
                  None \<Rightarrow> None
                | Some f \<Rightarrow> Some (delta\<lparr>delta_plus := p, delta_minus := m, delta_final := f\<rparr>))))"

subsection \<open>The merge walk of \<open>_delta_step_calc\<close>\<close>

definition add_plus :: "kv_delta \<Rightarrow> string \<Rightarrow> kv_delta option" where
  "add_plus d x = (case sid_buffer_add (delta_plus d) x of
                     None \<Rightarrow> None | Some b \<Rightarrow> Some (d\<lparr>delta_plus := Some b\<rparr>))"

definition add_minus :: "kv_delta \<Rightarrow> string \<Rightarrow> kv_delta option" where
  "add_minus d x = (case sid_buffer_add (delta_minus d) x of
                      None \<Rightarrow> None | Some b \<Rightarrow> Some (d\<lparr>delta_minus := Some b\<rparr>))"

definition add_final :: "kv_delta \<Rightarrow> string \<Rightarrow> kv_delta option" where
  "add_final d x = (case sid_buffer_add (delta_final d) x of
                      None \<Rightarrow> None | Some b \<Rightarrow> Some (d\<lparr>delta_final := Some b\<rparr>))"

text \<open>The three \<open>switch (delta->op)\<close> blocks of the walk; \<open>None\<close> is \<open>goto out\<close>.\<close>

definition old_has_item :: "kv_delta \<Rightarrow> string \<Rightarrow> kv_delta option" where
  "old_has_item d x =
     (case delta_op d of
        KV_OP_SET \<Rightarrow> add_minus d x
      | KV_OP_PLUS \<Rightarrow> add_final d x
      | KV_OP_MINUS \<Rightarrow> add_final d x
      | KV_OP_ILLEGAL \<Rightarrow> None)"

definition new_has_item :: "kv_delta \<Rightarrow> string \<Rightarrow> kv_delta option" where
  "new_has_item d x =
     (case delta_op d of
        KV_OP_SET \<Rightarrow> (case add_plus d x of None \<Rightarrow> None | Some d' \<Rightarrow> add_final d' x)
      | KV_OP_PLUS \<Rightarrow> (case add_plus d x of None \<Rightarrow> None | Some d' \<Rightarrow> add_final d' x)
      | KV_OP_MINUS \<Rightarrow> Some d
      | KV_OP_ILLEGAL \<Rightarrow> None)"

definition both_have_item :: "kv_delta \<Rightarrow> string \<Rightarrow> kv_delta option" where
  "both_have_item d x =
     (case delta_op d of
        KV_OP_SET \<Rightarrow> add_final d x
      | KV_OP_PLUS \<Rightarrow> add_final d x
      | KV_OP_MINUS \<Rightarrow> add_minus d x
      | KV_OP_ILLEGAL \<Rightarrow> None)"

fun delta_walk :: "string list \<Rightarrow> string list \<Rightarrow> kv_delta \<Rightarrow> kv_delta option" where
  "delta_walk (a # as) (b # bs) d =
     (if strcmp a b < 0 then
        (case old_has_item d a of None \<Rightarrow> None | Some d' \<Rightarrow> delta_walk as (b # bs) d')
      else if strcmp a b > 0 then
        (case new_has_item d b of None \<Rightarrow> None | Some d' \<Rightarrow> delta_walk (a # as) bs d')
      else
        (case both_have_item d b of None \<Rightarrow> None | Some d' \<Rightarrow> delta_walk as bs d'))"
| "delta_walk [] (b # bs) d =
     (case new_has_item d b of None \<Rightarrow> None | Some d' \<Rightarrow> delta_walk [] bs d')"
| "delta_walk (a # as) [] d =
     (case old_has_item d a of None \<Rightarrow> None | Some d' \<Rightarrow> delta_walk as [] d')"
| "delta_walk [] [] d = Some d"

text \<open>
  \<open>_delta_step_calc\<close>: \<open>old\<close> is \<open>None\<close> when the store has no record (\<open>old_data_size = 0\<close>).
  The result is the return code with the delta as the function leaves it.
\<close>

definition delta_step_calc :: "kv_delta \<Rightarrow> vvalue option \<Rightarrow> vvalue \<Rightarrow> int \<times> kv_delta" where
  "delta_step_calc delta old_vvalue new_vvalue =
     (let old_vsize = (case old_vvalue of None \<Rightarrow> 0 | Some v \<Rightarrow> vsize v);
          new_vsize = vsize new_vvalue
      in case init_delta_buffers delta new_vvalue old_vsize new_vsize (old_vsize + new_vsize) of
           None \<Rightarrow> (- 1, destroy_delta_buffers delta)
         | Some d \<Rightarrow>
             (case delta_walk (case old_vvalue of None \<Rightarrow> [] | Some v \<Rightarrow> items v)
                     (items new_vvalue) d of
                None \<Rightarrow> (- 1, destroy_delta_buffers d)
              | Some d' \<Rightarrow> (0, destroy_unused_delta_buffers d')))"

text \<open>
  \<open>_kv_cb_delta_step\<close>: the update callback. It returns 1 (commit) with \<open>delta->final\<close> as
  the value to store, or 0 (keep the old record).
\<close>

definition kv_cb_delta_step ::
  "kv_delta \<Rightarrow> vvalue option \<Rightarrow> vvalue \<Rightarrow> int \<times> vvalue \<times> kv_delta" where
  "kv_cb_delta_step delta old_data new_data =
     (case delta_step_calc delta old_data new_data of
        (r, d) \<Rightarrow>
          if r < 0 then (0, new_data, d)
          else (case delta_final d of
                  Some f \<Rightarrow> (1, f, d)
                | None \<Rightarrow> (0, new_data, d)))"

subsection \<open>The table of the specification\<close>

text \<open>
  The specification gives the walk as a table: per operation, where an item goes that is only
  in the old vector, only in the new one, or in both. \<open>table_walk\<close> follows these words for
  the three legal operations and yields the items added to (plus, minus, final), in order.
\<close>

type_synonym delta_items = "string list \<times> string list \<times> string list"

definition join3 :: "delta_items \<Rightarrow> delta_items \<Rightarrow> delta_items" where
  "join3 x y = (case x of (p, m, f) \<Rightarrow> case y of (p', m', f') \<Rightarrow> (p @ p', m @ m', f @ f'))"

definition only_in_old :: "kv_op_t \<Rightarrow> string \<Rightarrow> delta_items" where
  "only_in_old opr a = (case opr of KV_OP_SET \<Rightarrow> ([], [a], []) | _ \<Rightarrow> ([], [], [a]))"

definition only_in_new :: "kv_op_t \<Rightarrow> string \<Rightarrow> delta_items" where
  "only_in_new opr b = (case opr of KV_OP_MINUS \<Rightarrow> ([], [], []) | _ \<Rightarrow> ([b], [], [b]))"

definition in_both :: "kv_op_t \<Rightarrow> string \<Rightarrow> delta_items" where
  "in_both opr b = (case opr of KV_OP_MINUS \<Rightarrow> ([], [b], []) | _ \<Rightarrow> ([], [], [b]))"

fun table_walk :: "kv_op_t \<Rightarrow> string list \<Rightarrow> string list \<Rightarrow> delta_items" where
  "table_walk opr (a # as) (b # bs) =
     (if strcmp a b < 0 then join3 (only_in_old opr a) (table_walk opr as (b # bs))
      else if strcmp a b > 0 then join3 (only_in_new opr b) (table_walk opr (a # as) bs)
      else join3 (in_both opr b) (table_walk opr as bs))"
| "table_walk opr [] (b # bs) = join3 (only_in_new opr b) (table_walk opr [] bs)"
| "table_walk opr (a # as) [] = join3 (only_in_old opr a) (table_walk opr as [])"
| "table_walk opr [] [] = ([], [], [])"

definition table_plus :: "kv_op_t \<Rightarrow> string list \<Rightarrow> string list \<Rightarrow> string list" where
  "table_plus opr as bs = fst (table_walk opr as bs)"

definition table_minus :: "kv_op_t \<Rightarrow> string list \<Rightarrow> string list \<Rightarrow> string list" where
  "table_minus opr as bs = fst (snd (table_walk opr as bs))"

definition table_final :: "kv_op_t \<Rightarrow> string list \<Rightarrow> string list \<Rightarrow> string list" where
  "table_final opr as bs = snd (snd (table_walk opr as bs))"





definition old_items :: "vvalue option \<Rightarrow> string list" where
  "old_items old_vvalue = (case old_vvalue of None \<Rightarrow> [] | Some v \<Rightarrow> items v)"

text \<open>Membership and order of items as the walk sees them, through \<open>strcmp\<close>.\<close>

definition in_vec :: "string \<Rightarrow> string list \<Rightarrow> bool" where
  "in_vec x ys = (\<exists>y \<in> set ys. strcmp x y = 0)"

definition sorted_items :: "string list \<Rightarrow> bool" where
  "sorted_items xs = sorted_wrt (\<lambda>a b. strcmp a b < 0) xs"


section \<open>Records, flags and the update callbacks\<close>

subsection \<open>Flags and error numbers\<close>

text \<open>
  \<open>sid_ucmd_kv_flags_t\<close> as declared in ucmd-module.h. \<open>KV_SYNC\<close> is used by ubridge.c
  but is not declared in the header that comes with the sources; the functions that test it
  take its bit as the parameter \<open>sync\<close>.
\<close>

definition KV_FLAGS_UNSET :: "64 word" where "KV_FLAGS_UNSET = 0x0"
definition KV_PERSISTENT :: "64 word" where "KV_PERSISTENT = 0x1"
definition KV_MOD_PROTECTED :: "64 word" where "KV_MOD_PROTECTED = 0x2"
definition KV_MOD_PRIVATE :: "64 word" where "KV_MOD_PRIVATE = 0x4"
definition KV_MOD_RESERVED :: "64 word" where "KV_MOD_RESERVED = 0x8"

text \<open>The values of errno.h on Linux.\<close>

definition EPERM :: int where "EPERM = 1"
definition EACCES :: int where "EACCES = 13"
definition EBUSY :: int where "EBUSY = 16"
definition EINVAL :: int where "EINVAL = 22"
definition EREMOTEIO :: int where "EREMOTEIO = 121"

definition KV_INDEX_NOOP :: int where "KV_INDEX_NOOP = 0"
definition KV_INDEX_ADD :: int where "KV_INDEX_ADD = 1"
definition KV_INDEX_REMOVE :: int where "KV_INDEX_REMOVE = 2"

subsection \<open>Stored values\<close>

text \<open>
  \<open>struct kv_value\<close>: a scalar record. Its \<open>data\<close> member holds the owner string and, after
  the owner's NUL, the payload (\<open>sv_data\<close>, possibly empty).
\<close>

record svalue =
  sv_gennum :: "16 word"
  sv_seqnum :: "64 word"
  sv_flags :: "64 word"
  sv_owner :: string
  sv_data :: string

text \<open>
  A value as the store holds it and as the callbacks see it: a vector when
  \<open>KV_STORE_VALUE_VECTOR\<close> is set in the store flags, a scalar otherwise.
\<close>

datatype kv_store_value = Scalar svalue | Vector vvalue

text \<open>\<open>_get_vvalue\<close>: a scalar is read through a temporary vector with one data slot.\<close>

definition get_vvalue :: "kv_store_value \<Rightarrow> vvalue" where
  "get_vvalue value =
     (case value of
        Vector v \<Rightarrow> v
      | Scalar s \<Rightarrow> \<lparr>gennum = sv_gennum s, seqnum = sv_seqnum s, flags = sv_flags s,
                     owner = sv_owner s, items = [sv_data s]\<rparr>)"

text \<open>
  \<open>struct kv_update_arg\<close>: the owner of the attempting writer and the code the callback
  reports. The \<open>custom\<close> member is passed to the delta functions as an argument of its own.
\<close>

record kv_update_arg =
  arg_owner :: string
  ret_code :: int

definition check_kv_index_needed :: "64 word \<Rightarrow> vvalue option \<Rightarrow> vvalue option \<Rightarrow> int" where
  "check_kv_index_needed sync vvalue_old vvalue_new =
     (let old_indexed = (case vvalue_old of None \<Rightarrow> 0 | Some v \<Rightarrow> flags v AND sync);
          new_indexed = (case vvalue_new of None \<Rightarrow> 0 | Some v \<Rightarrow> flags v AND sync)
      in if old_indexed \<noteq> 0 \<and> new_indexed = 0 then KV_INDEX_REMOVE
         else if old_indexed = 0 \<and> new_indexed \<noteq> 0 then KV_INDEX_ADD
         else KV_INDEX_NOOP)"

text \<open>
  \<open>_kv_cb_overwrite\<close>: returns 1 to commit and 0 to keep the old record, with the update
  argument as it leaves it.
\<close>

definition kv_cb_overwrite ::
  "64 word \<Rightarrow> kv_store_value option \<Rightarrow> kv_store_value \<Rightarrow> kv_update_arg \<Rightarrow> int \<times> kv_update_arg" where
  "kv_cb_overwrite sync old_data new_data update_arg =
     (let vvalue_old = map_option get_vvalue old_data;
          vvalue_new = get_vvalue new_data;
          commit = (1, update_arg\<lparr>ret_code := check_kv_index_needed sync vvalue_old (Some vvalue_new)\<rparr>)
      in case vvalue_old of
           None \<Rightarrow> commit
         | Some v_old \<Rightarrow>
             if flags v_old AND KV_MOD_PRIVATE \<noteq> 0 then
               (if strcmp (owner v_old) (owner vvalue_new) \<noteq> 0
                then (0, update_arg\<lparr>ret_code := - EACCES\<rparr>) else commit)
             else if flags v_old AND KV_MOD_PROTECTED \<noteq> 0 then
               (if strcmp (owner v_old) (owner vvalue_new) \<noteq> 0
                then (0, update_arg\<lparr>ret_code := - EPERM\<rparr>) else commit)
             else if flags v_old AND KV_MOD_RESERVED \<noteq> 0 then
               (if strcmp (owner v_old) (owner vvalue_new) \<noteq> 0
                then (0, update_arg\<lparr>ret_code := - EBUSY\<rparr>) else commit)
             else commit)"

definition flags_indicate_mod_owned :: "64 word \<Rightarrow> 64 word" where
  "flags_indicate_mod_owned fl = fl AND (KV_MOD_PROTECTED OR KV_MOD_PRIVATE OR KV_MOD_RESERVED)"

subsection \<open>The key-value store\<close>

text \<open>
  Modelled from the spec: resource/kv-store.c is not part of the sources. The store is a map
  from keys to values. \<open>set\<close> is a compare-and-update: it calls the update callback with the
  old and the new record; the callback returns 1 to commit and 0 to abort, and may replace the
  new value (the delta step does). With \<open>KV_STORE_VALUE_OP_MERGE\<close> a vector is stored as
  one scalar made of its slots. The function returns the stored value, or nothing when the
  callback aborts. \<open>unset\<close> asks the callback in the same way and removes the key.
\<close>

type_synonym kv_store = "string \<Rightarrow> kv_store_value option"

datatype kv_store_value_op_flags = KV_STORE_VALUE_NO_OP | KV_STORE_VALUE_OP_MERGE

definition merge_value :: "kv_store_value \<Rightarrow> kv_store_value" where
  "merge_value value =
     (case value of
        Scalar s \<Rightarrow> Scalar s
      | Vector v \<Rightarrow> Scalar \<lparr>sv_gennum = gennum v, sv_seqnum = seqnum v, sv_flags = flags v,
                            sv_owner = owner v, sv_data = concat (items v)\<rparr>)"

definition kv_store_set_value ::
  "kv_store \<Rightarrow> string \<Rightarrow> kv_store_value \<Rightarrow> kv_store_value_op_flags \<Rightarrow>
   (kv_store_value option \<Rightarrow> kv_store_value \<Rightarrow> 'a \<Rightarrow> int \<times> kv_store_value \<times> 'a) \<Rightarrow> 'a \<Rightarrow>
   kv_store \<times> kv_store_value option \<times> 'a" where
  "kv_store_set_value store key value op_flags update_cb update_arg =
     (case update_cb (store key) value update_arg of
        (r, new_value, arg') \<Rightarrow>
          if r = 0 then (store, None, arg')
          else (let stored = (case op_flags of
                                KV_STORE_VALUE_OP_MERGE \<Rightarrow> merge_value new_value
                              | KV_STORE_VALUE_NO_OP \<Rightarrow> new_value)
                in (store(key \<mapsto> stored), Some stored, arg')))"

definition kv_store_unset ::
  "kv_store \<Rightarrow> string \<Rightarrow> (kv_store_value option \<Rightarrow> 'a \<Rightarrow> int \<times> 'a) \<Rightarrow> 'a \<Rightarrow> kv_store \<times> int \<times> 'a" where
  "kv_store_unset store key unset_cb unset_arg =
     (case unset_cb (store key) unset_arg of
        (r, arg') \<Rightarrow> if r = 0 then (store, - 1, arg') else (store(key := None), 0, arg'))"

text \<open>The overwrite callback in the shape the store calls it: it leaves the new value as it is.\<close>

definition overwrite_cb ::
  "64 word \<Rightarrow> kv_store_value option \<Rightarrow> kv_store_value \<Rightarrow> kv_update_arg \<Rightarrow>
   int \<times> kv_store_value \<times> kv_update_arg" where
  "overwrite_cb sync old_data new_data update_arg =
     (case kv_cb_overwrite sync old_data new_data update_arg of (r, arg') \<Rightarrow> (r, new_data, arg'))"

text \<open>The closed forms of the table for sorted vectors.\<close>

definition sorted_plus :: "kv_op_t \<Rightarrow> string list \<Rightarrow> string list \<Rightarrow> string list" where
  "sorted_plus opr as bs = (case opr of KV_OP_MINUS \<Rightarrow> [] | _ \<Rightarrow> filter (\<lambda>b. \<not> in_vec b as) bs)"

definition sorted_minus :: "kv_op_t \<Rightarrow> string list \<Rightarrow> string list \<Rightarrow> string list" where
  "sorted_minus opr as bs =
     (case opr of
        KV_OP_SET \<Rightarrow> filter (\<lambda>a. \<not> in_vec a bs) as
      | KV_OP_MINUS \<Rightarrow> filter (\<lambda>b. in_vec b as) bs
      | _ \<Rightarrow> [])"

text \<open>What a committed overwrite leaves behind, and the error of a refused one.\<close>

definition overwrite_commit ::
  "64 word \<Rightarrow> kv_store \<Rightarrow> string \<Rightarrow> kv_store_value \<Rightarrow> kv_store_value_op_flags \<Rightarrow> kv_update_arg \<Rightarrow>
   kv_store \<times> kv_store_value option \<times> kv_update_arg" where
  "overwrite_commit sync store key new_value op_flags update_arg =
     (let stored = (case op_flags of KV_STORE_VALUE_OP_MERGE \<Rightarrow> merge_value new_value
                                   | KV_STORE_VALUE_NO_OP \<Rightarrow> new_value)
      in (store(key \<mapsto> stored), Some stored,
          update_arg\<lparr>ret_code := check_kv_index_needed sync (map_option get_vvalue (store key))
                                      (Some (get_vvalue new_value))\<rparr>))"

definition overwrite_errno :: "64 word \<Rightarrow> int" where
  "overwrite_errno fl =
     (if fl AND KV_MOD_PRIVATE \<noteq> 0 then EACCES
      else if fl AND KV_MOD_PROTECTED \<noteq> 0 then EPERM
      else EBUSY)"

section \<open>Keys\<close>

text \<open>
  \<open>sid_ucmd_kv_namespace_t\<close> and \<open>struct kv_key_spec\<close>. A key is the string
  \<open><extra_op><op>:<dom>:<ns>:<ns_part>:<id>:<id_part>:<core>\<close>, where the extra operator
  of a full key is one blank (the place of the sync index mark) and a key prefix has neither
  the extra operator nor the core.
\<close>

datatype sid_ucmd_kv_namespace_t = KV_NS_UNDEFINED | KV_NS_UDEV | KV_NS_GLOBAL | KV_NS_MODULE | KV_NS_DEVICE

record kv_key_spec =
  key_op :: kv_op_t
  key_dom :: string
  key_ns :: sid_ucmd_kv_namespace_t
  key_ns_part :: string
  key_id :: string
  key_id_part :: string
  key_core :: string

definition KV_STORE_KEY_JOIN :: string where
  "KV_STORE_KEY_JOIN = '':''"

definition op_to_key_prefix_map :: "kv_op_t \<Rightarrow> string" where
  "op_to_key_prefix_map opr =
     (case opr of KV_OP_ILLEGAL \<Rightarrow> ''X'' | KV_OP_SET \<Rightarrow> '''' | KV_OP_PLUS \<Rightarrow> ''+'' | KV_OP_MINUS \<Rightarrow> ''-'')"

definition ns_to_key_prefix_map :: "sid_ucmd_kv_namespace_t \<Rightarrow> string" where
  "ns_to_key_prefix_map n =
     (case n of KV_NS_UNDEFINED \<Rightarrow> '''' | KV_NS_UDEV \<Rightarrow> ''U'' | KV_NS_DEVICE \<Rightarrow> ''D''
      | KV_NS_MODULE \<Rightarrow> ''M'' | KV_NS_GLOBAL \<Rightarrow> ''G'')"

definition do_compose_key :: "kv_key_spec \<Rightarrow> bool \<Rightarrow> string" where
  "do_compose_key key_spec prefix_only =
     (if prefix_only then '''' else '' '') @
     op_to_key_prefix_map (key_op key_spec) @ KV_STORE_KEY_JOIN @
     key_dom key_spec @ KV_STORE_KEY_JOIN @
     ns_to_key_prefix_map (key_ns key_spec) @ KV_STORE_KEY_JOIN @
     key_ns_part key_spec @ KV_STORE_KEY_JOIN @
     key_id key_spec @ KV_STORE_KEY_JOIN @
     key_id_part key_spec @
     (if prefix_only then '''' else KV_STORE_KEY_JOIN) @
     (if prefix_only then '''' else key_core key_spec)"

definition compose_key :: "kv_key_spec \<Rightarrow> string" where
  "compose_key key_spec = do_compose_key key_spec False"

definition compose_key_prefix :: "kv_key_spec \<Rightarrow> string" where
  "compose_key_prefix key_spec = do_compose_key key_spec True"

text \<open>
  \<open>_get_key_part\<close>: skip \<open>req_part\<close> joins, then measure up to the next join (up to the end
  for the last part). The result is the part itself; \<open>None\<close> is the NULL return.
\<close>

fun skip_parts :: "nat \<Rightarrow> string \<Rightarrow> string option" where
  "skip_parts 0 s = Some s"
| "skip_parts (Suc n) s =
     (case dropWhile (\<lambda>c. c \<noteq> CHR '':'') s of
        [] \<Rightarrow> None
      | c # rest \<Rightarrow> skip_parts n rest)"

definition KEY_PART_OP :: nat where "KEY_PART_OP = 0"
definition KEY_PART_NS :: nat where "KEY_PART_NS = 2"
definition KEY_PART_NS_PART :: nat where "KEY_PART_NS_PART = 3"
definition KEY_PART_CORE :: nat where "KEY_PART_CORE = 6"

definition get_key_part :: "string \<Rightarrow> nat \<Rightarrow> string option" where
  "get_key_part key req_part =
     (case skip_parts req_part (c_str key) of
        None \<Rightarrow> None
      | Some start \<Rightarrow>
          if req_part = KEY_PART_CORE then Some start
          else if CHR '':'' \<in> set start then Some (takeWhile (\<lambda>c. c \<noteq> CHR '':'') start)
          else None)"

definition get_op_from_key :: "string \<Rightarrow> kv_op_t" where
  "get_op_from_key key =
     (case get_key_part key KEY_PART_OP of
        None \<Rightarrow> KV_OP_ILLEGAL
      | Some str \<Rightarrow>
          if length str > 1 then KV_OP_ILLEGAL
          else if length str = 0 then KV_OP_SET
          else if hd str = CHR ''+'' then KV_OP_PLUS
          else if hd str = CHR ''-'' then KV_OP_MINUS
          else KV_OP_ILLEGAL)"

definition copy_ns_part_from_key :: "string \<Rightarrow> string option" where
  "copy_ns_part_from_key key = get_key_part key KEY_PART_NS_PART"

section \<open>The absolute delta\<close>

subsection \<open>Bitmaps\<close>

text \<open>
  Modelled from the spec: internal/bitmap.c is not part of the sources. A bitmap of
  \<open>n\<close> bits is a list of \<open>n\<close> booleans; \<open>bitmap_create n True\<close> sets every bit.
\<close>

type_synonym bitmap = "bool list"

definition bitmap_create :: "nat \<Rightarrow> bool \<Rightarrow> bitmap" where
  "bitmap_create n invert = replicate n invert"

definition bitmap_bit_unset :: "bitmap \<Rightarrow> nat \<Rightarrow> bitmap" where
  "bitmap_bit_unset bmp i = bmp[i := False]"

definition bitmap_bit_is_set :: "bitmap \<Rightarrow> nat \<Rightarrow> bool" where
  "bitmap_bit_is_set bmp i = (i < length bmp \<and> bmp ! i)"

definition bitmap_get_bit_set_count :: "bitmap \<Rightarrow> nat" where
  "bitmap_get_bit_set_count bmp = length (filter (\<lambda>b. b) bmp)"

subsection \<open>\<open>_delta_cross_bitmap_calc\<close>\<close>

text \<open>
  \<open>struct cross_bitmap_calc_arg\<close>. A vector that is not there (\<open>NULL\<close>, size 0) is
  \<open>None\<close>, and so is a bitmap that was not created.
\<close>

record cross_bitmap_calc_arg =
  cross_old_vvalue :: "vvalue option"
  cross_old_bmp :: "bitmap option"
  cross_new_vvalue :: "vvalue option"
  cross_new_bmp :: "bitmap option"

definition unset_opt :: "bitmap option \<Rightarrow> nat \<Rightarrow> bitmap option" where
  "unset_opt bmp i = map_option (\<lambda>b. bitmap_bit_unset b i) bmp"

text \<open>
  The walk over both vectors from slot \<open>i_old\<close> and \<open>i_new\<close> on; the lists are the items
  not yet visited. Equal items are a contradiction: their bits are unset on both sides.
\<close>

fun cross_walk ::
  "nat \<Rightarrow> nat \<Rightarrow> string list \<Rightarrow> string list \<Rightarrow> bitmap option \<Rightarrow> bitmap option \<Rightarrow>
   bitmap option \<times> bitmap option" where
  "cross_walk i_old i_new (a # as) (b # bs) ob nb =
     (if strcmp a b < 0 then cross_walk (i_old + 1) i_new as (b # bs) ob nb
      else if strcmp a b > 0 then cross_walk i_old (i_new + 1) (a # as) bs ob nb
      else cross_walk (i_old + 1) (i_new + 1) as bs (unset_opt ob i_old) (unset_opt nb i_new))"
| "cross_walk i_old i_new [] bs ob nb = (ob, nb)"
| "cross_walk i_old i_new as [] ob nb = (ob, nb)"

definition delta_cross_bitmap_calc :: "cross_bitmap_calc_arg \<Rightarrow> cross_bitmap_calc_arg" where
  "delta_cross_bitmap_calc cross =
     (case cross_walk VVALUE_HEADER_CNT VVALUE_HEADER_CNT
             (old_items (cross_old_vvalue cross)) (old_items (cross_new_vvalue cross))
             (cross_old_bmp cross) (cross_new_bmp cross) of
        (ob, nb) \<Rightarrow> cross\<lparr>cross_old_bmp := ob, cross_new_bmp := nb\<rparr>)"

subsection \<open>\<open>_delta_abs_calc\<close>\<close>

definition DELTA_WITH_DIFF :: nat where "DELTA_WITH_DIFF = 1"
definition DELTA_WITH_REL :: nat where "DELTA_WITH_REL = 2"

definition has_flag :: "nat \<Rightarrow> nat \<Rightarrow> bool" where
  "has_flag fl bit_mask = (fl AND bit_mask \<noteq> 0)"

text \<open>
  \<open>struct kv_rel_spec\<close>, the \<open>custom\<close> member of the update argument of the delta
  functions.
\<close>

record kv_rel_spec =
  rel_delta :: kv_delta
  rel_abs_delta :: kv_delta
  cur_key_spec :: kv_key_spec
  rel_key_spec :: kv_key_spec

text \<open>
  The source reads the value stored under a delta key as an iovec array without looking at
  the store flags. A vector is read as it is; the model reads nothing from a key that holds a
  scalar, for which the source has no defined behaviour.
\<close>

definition get_stored_vector :: "kv_store \<Rightarrow> string \<Rightarrow> vvalue option" where
  "get_stored_vector store key =
     (case store key of Some (Vector v) \<Rightarrow> Some v | _ \<Rightarrow> None)"

text \<open>Setting up one cross comparison: the stored vector with its bitmap, then the new one.\<close>

definition cross_init :: "vvalue option \<Rightarrow> cross_bitmap_calc_arg" where
  "cross_init stored =
     \<lparr>cross_old_vvalue = stored,
      cross_old_bmp = map_option (\<lambda>v. bitmap_create (vsize v) True) stored,
      cross_new_vvalue = None, cross_new_bmp = None\<rparr>"

definition cross_setup :: "cross_bitmap_calc_arg \<Rightarrow> vvalue option \<Rightarrow> cross_bitmap_calc_arg" where
  "cross_setup cross delta_buf =
     (case delta_buf of
        None \<Rightarrow> cross
      | Some v \<Rightarrow>
          delta_cross_bitmap_calc
            (cross\<lparr>cross_new_vvalue := Some v, cross_new_bmp := Some (bitmap_create (vsize v) True)\<rparr>))"

definition bmp_count :: "bitmap option \<Rightarrow> nat" where
  "bmp_count bmp = (case bmp of None \<Rightarrow> 0 | Some b \<Rightarrow> bitmap_get_bit_set_count b)"

text \<open>The two sizes, as the source counts them.\<close>

definition abs_minus_vsize :: "cross_bitmap_calc_arg \<Rightarrow> cross_bitmap_calc_arg \<Rightarrow> nat" where
  "abs_minus_vsize cross1 cross2 =
     (let n = bmp_count (cross_old_bmp cross2) + bmp_count (cross_new_bmp cross1)
      in if cross_old_bmp cross2 \<noteq> None \<and> cross_new_bmp cross1 \<noteq> None then n - VVALUE_HEADER_CNT else n)"

definition abs_plus_vsize :: "cross_bitmap_calc_arg \<Rightarrow> cross_bitmap_calc_arg \<Rightarrow> nat" where
  "abs_plus_vsize cross1 cross2 =
     (let n = bmp_count (cross_old_bmp cross1) + bmp_count (cross_new_bmp cross2)
      in if cross_old_bmp cross1 \<noteq> None \<and> cross_new_bmp cross2 \<noteq> None then n - VVALUE_HEADER_CNT else n)"

text \<open>
  The loops \<open>for (i = VVALUE_IDX_DATA; i < vsize; i++)\<close> that add every item whose bit is
  still set.
\<close>

fun add_set_items :: "nat \<Rightarrow> string list \<Rightarrow> bitmap \<Rightarrow> vvalue option \<Rightarrow> vvalue option option" where
  "add_set_items i [] bmp buf = Some buf"
| "add_set_items i (x # xs) bmp buf =
     (if bitmap_bit_is_set bmp i then
        (case sid_buffer_add buf x of
           None \<Rightarrow> None
         | Some b \<Rightarrow> add_set_items (i + 1) xs bmp (Some b))
      else add_set_items (i + 1) xs bmp buf)"

definition add_cross_items :: "vvalue option \<Rightarrow> bitmap option \<Rightarrow> vvalue option \<Rightarrow> vvalue option option" where
  "add_cross_items v bmp buf =
     (case v of
        None \<Rightarrow> Some buf
      | Some vv \<Rightarrow> add_set_items VVALUE_HEADER_CNT (items vv) (case bmp of None \<Rightarrow> [] | Some b \<Rightarrow> b) buf)"

text \<open>
  \<open>qsort\<close> with \<open>_vvalue_str_cmp\<close> on the data items: the result is sorted by \<open>strcmp\<close>;
  the order among items that compare equal is not fixed by C, the model inserts one by one.
\<close>

fun insert_item :: "string \<Rightarrow> string list \<Rightarrow> string list" where
  "insert_item x [] = [x]"
| "insert_item x (y # ys) = (if strcmp x y \<le> 0 then x # y # ys else y # insert_item x ys)"

definition qsort_items :: "string list \<Rightarrow> string list" where
  "qsort_items xs = foldr insert_item xs []"

definition qsort_buffer :: "vvalue option \<Rightarrow> vvalue option" where
  "qsort_buffer buf = map_option (\<lambda>b. b\<lparr>items := qsort_items (items b)\<rparr>) buf"

text \<open>
  \<open>_delta_abs_calc\<close>, given the vectors stored under the \<open>+\<close> and the \<open>-\<close> key of the
  current key spec. It returns the return code and the rel spec with its absolute delta.
\<close>

definition delta_abs_calc_stored ::
  "vvalue \<Rightarrow> vvalue option \<Rightarrow> vvalue option \<Rightarrow> kv_rel_spec \<Rightarrow> int \<times> kv_rel_spec" where
  "delta_abs_calc_stored vheader stored_plus stored_minus rel_spec =
     (if delta_plus (rel_delta rel_spec) = None \<and> delta_minus (rel_delta rel_spec) = None then (0, rel_spec)
      else
        let cross1 = cross_setup (cross_init stored_plus) (delta_minus (rel_delta rel_spec));
            cross2 = cross_setup (cross_init stored_minus) (delta_plus (rel_delta rel_spec));
            failed = (- 1, rel_spec\<lparr>rel_abs_delta := destroy_delta_buffers (rel_abs_delta rel_spec)\<rparr>)
        in case init_delta_buffers (rel_abs_delta rel_spec) vheader
                  (abs_minus_vsize cross1 cross2) (abs_plus_vsize cross1 cross2) 0 of
             None \<Rightarrow> failed
           | Some ad \<Rightarrow>
               let ad1 = (if has_flag (delta_flags (rel_delta rel_spec)) DELTA_WITH_REL
                          then ad\<lparr>delta_flags := delta_flags ad OR DELTA_WITH_REL\<rparr> else ad)
               in case add_cross_items (cross_old_vvalue cross1) (cross_old_bmp cross1) (delta_plus ad1) of
                    None \<Rightarrow> failed
                  | Some p1 \<Rightarrow>
                      (case add_cross_items (cross_new_vvalue cross1) (cross_new_bmp cross1) (delta_minus ad1) of
                         None \<Rightarrow> failed
                       | Some m1 \<Rightarrow>
                           (case add_cross_items (cross_old_vvalue cross2) (cross_old_bmp cross2) m1 of
                              None \<Rightarrow> failed
                            | Some m2 \<Rightarrow>
                                (case add_cross_items (cross_new_vvalue cross2) (cross_new_bmp cross2) p1 of
                                   None \<Rightarrow> failed
                                 | Some p2 \<Rightarrow>
                                     (0, rel_spec\<lparr>rel_abs_delta :=
                                           ad1\<lparr>delta_plus := qsort_buffer p2,
                                               delta_minus := qsort_buffer m2\<rparr>\<rparr>)))))"

definition delta_abs_calc :: "vvalue \<Rightarrow> kv_store \<Rightarrow> kv_rel_spec \<Rightarrow> int \<times> kv_rel_spec" where
  "delta_abs_calc vheader store rel_spec =
     delta_abs_calc_stored vheader
       (get_stored_vector store (compose_key ((cur_key_spec rel_spec)\<lparr>key_op := KV_OP_PLUS\<rparr>)))
       (get_stored_vector store (compose_key ((cur_key_spec rel_spec)\<lparr>key_op := KV_OP_MINUS\<rparr>)))
       rel_spec"





section \<open>Delta updates of the store\<close>

text \<open>
  \<open>DEFAULT_VALUE_FLAGS_CORE\<close> with and without the sync bit, as in the two static variables
  \<open>value_flags_sync\<close> and \<open>value_flags_no_sync\<close>.
\<close>

definition value_flags_sync :: "64 word \<Rightarrow> 64 word" where
  "value_flags_sync sync = sync OR KV_PERSISTENT OR KV_MOD_RESERVED OR KV_MOD_PRIVATE"

definition value_flags_no_sync :: "64 word \<Rightarrow> 64 word" where
  "value_flags_no_sync sync = value_flags_sync sync AND NOT sync"

definition value_vector_mark_sync :: "64 word \<Rightarrow> vvalue \<Rightarrow> bool \<Rightarrow> vvalue" where
  "value_vector_mark_sync sync v on =
     v\<lparr>flags := (if on then value_flags_sync sync else value_flags_no_sync sync)\<rparr>"

definition flip_key_specs :: "kv_rel_spec \<Rightarrow> kv_rel_spec" where
  "flip_key_specs rel_spec =
     rel_spec\<lparr>cur_key_spec := rel_key_spec rel_spec, rel_key_spec := cur_key_spec rel_spec\<rparr>"

text \<open>\<open>(struct kv_delta) {0}\<close>: all members zero.\<close>

definition zero_delta :: kv_delta where
  "zero_delta = \<lparr>delta_op = KV_OP_ILLEGAL, delta_flags = 0, delta_plus = None, delta_minus = None,
                  delta_final = None\<rparr>"

text \<open>
  What the delta functions work on: the store, the rel spec (\<open>update_arg->custom\<close>) and the
  rest of the update argument.
\<close>

record delta_state =
  ds_store :: kv_store
  ds_rel :: kv_rel_spec
  ds_arg :: kv_update_arg

text \<open>
  Two ways in which the model does not return a result. \<open>_delta_update\<close> reads
  \<open>rel_spec->delta->plus\<close> (or \<open>minus\<close>) with \<open>sid_buffer_get_data\<close> without a check,
  also when that buffer was destroyed as unused; what this does is not defined by the
  sources. \<open>Out_Of_Fuel\<close> bounds the recursion between \<open>_kv_delta_set\<close> and
  \<open>_delta_update\<close>.
\<close>

datatype failure = Null_Buffer_Read | Out_Of_Fuel

text \<open>
  The delta step as the update callback of the store. The source reads the old record as an
  iovec array; a scalar under the key has no defined reading and the model keeps the old
  record there.
\<close>

definition delta_step_cb ::
  "kv_store_value option \<Rightarrow> kv_store_value \<Rightarrow> kv_rel_spec \<Rightarrow> int \<times> kv_store_value \<times> kv_rel_spec" where
  "delta_step_cb old_data new_data rel_spec =
     (case new_data of
        Scalar s \<Rightarrow> (0, new_data, rel_spec)
      | Vector nv \<Rightarrow>
          (case old_data of
             Some (Scalar s) \<Rightarrow> (0, new_data, rel_spec)
           | Some (Vector ov) \<Rightarrow>
               (case kv_cb_delta_step (rel_delta rel_spec) (Some ov) nv of
                  (r, f, d) \<Rightarrow> (r, Vector f, rel_spec\<lparr>rel_delta := d\<rparr>))
           | None \<Rightarrow>
               (case kv_cb_delta_step (rel_delta rel_spec) None nv of
                  (r, f, d) \<Rightarrow> (r, Vector f, rel_spec\<lparr>rel_delta := d\<rparr>))))"

text \<open>
  The loop of \<open>_delta_update\<close> over the items of the local delta: one nested
  \<open>_kv_delta_set\<close> on the reciprocal key of each item, whose result is not looked at. An
  item without a namespace part ends the loop with \<open>r = -1\<close>.
\<close>

fun rel_loop ::
  "(string \<Rightarrow> vvalue \<Rightarrow> delta_state \<Rightarrow> bool \<Rightarrow> failure + int \<times> delta_state) \<Rightarrow>
   vvalue \<Rightarrow> bool \<Rightarrow> string list \<Rightarrow> delta_state \<Rightarrow> failure + int \<times> delta_state" where
  "rel_loop nested rel_vvalue index [] st = Inr (0, st)"
| "rel_loop nested rel_vvalue index (x # xs) st =
     (case copy_ns_part_from_key x of
        None \<Rightarrow> Inr (- 1, st)
      | Some ns_part \<Rightarrow>
          let rs = ds_rel st;
              spec = (cur_key_spec rs)\<lparr>key_ns_part := ns_part\<rparr>;
              key = compose_key spec
          in (case nested key rel_vvalue (st\<lparr>ds_rel := rs\<lparr>cur_key_spec := spec\<rparr>\<rparr>) index of
                Inl f \<Rightarrow> Inl f
              | Inr (r, st') \<Rightarrow>
                  rel_loop nested rel_vvalue index xs
                    (st'\<lparr>ds_rel := (ds_rel st')\<lparr>cur_key_spec := (cur_key_spec (ds_rel st'))\<lparr>key_ns_part := []\<rparr>\<rparr>\<rparr>)))"

text \<open>
  \<open>_delta_update\<close>. The absolute delta of the operation is stored under the \<open>+\<close> or
  \<open>-\<close> key through the overwrite callback; with \<open>DELTA_WITH_REL\<close> every item of the local
  delta then gets its reciprocal record through a nested \<open>_kv_delta_set\<close> that carries
  \<open>DELTA_WITH_DIFF\<close> only. The alias entries of the sync index (\<open>_manage_kv_index\<close>) live
  under keys that start with \<open>>\<close> and are not part of the modelled store.
\<close>

definition delta_update ::
  "(string \<Rightarrow> vvalue \<Rightarrow> delta_state \<Rightarrow> bool \<Rightarrow> failure + int \<times> delta_state) \<Rightarrow>
   64 word \<Rightarrow> vvalue \<Rightarrow> kv_op_t \<Rightarrow> delta_state \<Rightarrow> bool \<Rightarrow> failure + int \<times> delta_state" where
  "delta_update nested sync vheader opr st index =
     (let rs = ds_rel st;
          abs_buf = (case opr of KV_OP_PLUS \<Rightarrow> delta_plus (rel_abs_delta rs)
                               | KV_OP_MINUS \<Rightarrow> delta_minus (rel_abs_delta rs)
                               | _ \<Rightarrow> None);
          delta_buf = (case opr of KV_OP_PLUS \<Rightarrow> delta_plus (rel_delta rs)
                                 | KV_OP_MINUS \<Rightarrow> delta_minus (rel_delta rs)
                                 | _ \<Rightarrow> None)
      in if opr \<noteq> KV_OP_PLUS \<and> opr \<noteq> KV_OP_MINUS then Inr (- 1, st)
         else case abs_buf of
           None \<Rightarrow> Inr (0, st)
         | Some abs_delta_vvalue \<Rightarrow>
             (case delta_buf of
                None \<Rightarrow> Inl Null_Buffer_Read
              | Some delta_vvalue \<Rightarrow>
                  let key = compose_key ((cur_key_spec rs)\<lparr>key_op := opr\<rparr>);
                      abs_unsynced = value_vector_mark_sync sync abs_delta_vvalue False;
                      rs0 = rs\<lparr>rel_abs_delta :=
                              (case opr of
                                 KV_OP_PLUS \<Rightarrow> (rel_abs_delta rs)\<lparr>delta_plus := Some abs_unsynced\<rparr>
                               | _ \<Rightarrow> (rel_abs_delta rs)\<lparr>delta_minus := Some abs_unsynced\<rparr>)\<rparr>
                  in case kv_store_set_value (ds_store st) key
                            (Vector (value_vector_mark_sync sync abs_delta_vvalue True))
                            KV_STORE_VALUE_NO_OP (overwrite_cb sync) (ds_arg st) of
                       (store1, stored, arg1) \<Rightarrow>
                         let st1 = st\<lparr>ds_store := store1, ds_rel := rs0, ds_arg := arg1\<rparr>
                         in if vsize delta_vvalue \<noteq> 0 \<and> has_flag (delta_flags (rel_delta rs)) DELTA_WITH_REL
                            then
                              let rs1 = flip_key_specs
                                          (rs0\<lparr>rel_delta := zero_delta\<lparr>delta_op := opr, delta_flags := DELTA_WITH_DIFF\<rparr>,
                                               rel_abs_delta := zero_delta\<rparr>);
                                  key_prefix = compose_key_prefix (rel_key_spec rs1);
                                  rel_vvalue = \<lparr>gennum = gennum vheader, seqnum = seqnum vheader,
                                                flags = value_flags_no_sync sync, owner = arg_owner arg1,
                                                items = [key_prefix @ [CHR 0x00]]\<rparr>
                              in (case rel_loop nested rel_vvalue index (items delta_vvalue) (st1\<lparr>ds_rel := rs1\<rparr>) of
                                    Inl f \<Rightarrow> Inl f
                                  | Inr (r, st2) \<Rightarrow>
                                      Inr (r, st2\<lparr>ds_rel :=
                                                 flip_key_specs
                                                   ((ds_rel st2)\<lparr>rel_abs_delta := rel_abs_delta rs0,
                                                                 rel_delta := rel_delta rs0\<rparr>)\<rparr>))
                            else Inr (- 1, st1)))"

text \<open>\<open>_kv_delta_set\<close>, with the function to call for a nested delta set.\<close>

definition kv_delta_set_finish :: "int \<Rightarrow> delta_state \<Rightarrow> failure + int \<times> delta_state" where
  "kv_delta_set_finish r st =
     Inr (r, st\<lparr>ds_rel := (ds_rel st)\<lparr>rel_abs_delta := destroy_delta_buffers (rel_abs_delta (ds_rel st)),
                                       rel_delta := destroy_delta_buffers (rel_delta (ds_rel st))\<rparr>\<rparr>)"

definition kv_delta_set_body ::
  "(string \<Rightarrow> vvalue \<Rightarrow> delta_state \<Rightarrow> bool \<Rightarrow> failure + int \<times> delta_state) \<Rightarrow>
   64 word \<Rightarrow> string \<Rightarrow> vvalue \<Rightarrow> delta_state \<Rightarrow> bool \<Rightarrow> failure + int \<times> delta_state" where
  "kv_delta_set_body nested sync key vvalue st index =
     (case kv_store_set_value (ds_store st) key (Vector vvalue) KV_STORE_VALUE_NO_OP
             delta_step_cb (ds_rel st) of
        (store1, stored, rs1) \<Rightarrow>
          let st1 = st\<lparr>ds_store := store1, ds_rel := rs1\<rparr>
          in case stored of
               None \<Rightarrow> kv_delta_set_finish (- 1) st1
             | Some sv \<Rightarrow>
                 if has_flag (delta_flags (rel_delta rs1)) (DELTA_WITH_DIFF OR DELTA_WITH_REL) then
                   (case delta_abs_calc vvalue store1 rs1 of
                      (ra, rs2) \<Rightarrow>
                        if ra < 0 then kv_delta_set_finish (- 1) (st1\<lparr>ds_rel := rs2\<rparr>)
                        else
                          (case delta_update nested sync vvalue KV_OP_PLUS (st1\<lparr>ds_rel := rs2\<rparr>) index of
                             Inl f \<Rightarrow> Inl f
                           | Inr (rp, st3) \<Rightarrow>
                               if rp < 0 then kv_delta_set_finish (- 1) st3
                               else
                                 (case delta_update nested sync vvalue KV_OP_MINUS st3 index of
                                    Inl f \<Rightarrow> Inl f
                                  | Inr (rm, st4) \<Rightarrow>
                                      if rm < 0 then kv_delta_set_finish (- 1) st4
                                      else kv_delta_set_finish 0 st4)))
                 else kv_delta_set_finish 0 st1)"

primrec kv_delta_set_fuel ::
  "nat \<Rightarrow> 64 word \<Rightarrow> string \<Rightarrow> vvalue \<Rightarrow> delta_state \<Rightarrow> bool \<Rightarrow> failure + int \<times> delta_state" where
  "kv_delta_set_fuel 0 = (\<lambda>sync key vvalue st index. Inl Out_Of_Fuel)"
| "kv_delta_set_fuel (Suc n) =
     (\<lambda>sync key vvalue st index.
        kv_delta_set_body (kv_delta_set_fuel n sync) sync key vvalue st index)"

text \<open>The nesting is at most two deep, see \<open>kv_delta_set_returns\<close> below.\<close>

definition kv_delta_set ::
  "64 word \<Rightarrow> string \<Rightarrow> vvalue \<Rightarrow> delta_state \<Rightarrow> bool \<Rightarrow> failure + int \<times> delta_state" where
  "kv_delta_set = kv_delta_set_fuel 2"

section \<open>Merging a worker's export into the main store\<close>

text \<open>
  \<open>_kv_cb_main_unset\<close> and \<open>_kv_cb_main_set\<close>, the callbacks of the merge. Note that the
  refused unset reports \<open>EBUSY\<close> as it is written in the source, without a sign.
\<close>

definition kv_cb_main_unset :: "kv_store_value option \<Rightarrow> kv_update_arg \<Rightarrow> int \<times> kv_update_arg" where
  "kv_cb_main_unset old_data update_arg =
     (case old_data of
        None \<Rightarrow> (1, update_arg)
      | Some ov \<Rightarrow>
          let vvalue_old = get_vvalue ov
          in if flags_indicate_mod_owned (flags vvalue_old) \<noteq> 0 \<and>
                strcmp (owner vvalue_old) (arg_owner update_arg) \<noteq> 0
             then (0, update_arg\<lparr>ret_code := EBUSY\<rparr>)
             else (1, update_arg))"

definition kv_cb_main_set ::
  "64 word \<Rightarrow> kv_store_value option \<Rightarrow> kv_store_value \<Rightarrow> kv_update_arg \<Rightarrow> int \<times> kv_update_arg" where
  "kv_cb_main_set sync old_data new_data update_arg =
     (case old_data of
        None \<Rightarrow> (1, update_arg)
      | Some ov \<Rightarrow>
          if seqnum (get_vvalue new_data) \<ge> seqnum (get_vvalue ov)
          then (case kv_cb_overwrite sync old_data new_data update_arg of
                  (r, arg') \<Rightarrow> (if r \<noteq> 0 then 1 else 0, arg'))
          else (0, update_arg))"

definition main_set_cb ::
  "64 word \<Rightarrow> kv_store_value option \<Rightarrow> kv_store_value \<Rightarrow> kv_update_arg \<Rightarrow>
   int \<times> kv_store_value \<times> kv_update_arg" where
  "main_set_cb sync old_data new_data update_arg =
     (case kv_cb_main_set sync old_data new_data update_arg of (r, arg') \<Rightarrow> (r, new_data, arg'))"

text \<open>
  One record of the export buffer, parsed: its key and its value, a vector when the record
  carries \<open>KV_STORE_VALUE_VECTOR\<close>. The layout of the shared memory is not modelled.
  \<open>sync_main_kv_record\<close> is one round of the loop of \<open>_sync_main_kv_store\<close>; \<open>None\<close> is
  \<open>goto out\<close> with \<open>r = -1\<close>, which drops the rest of the export. The key specs of the rel
  spec are NULL in the source; they are not read, as the delta flags are 0.
\<close>

definition no_key_spec :: kv_key_spec where
  "no_key_spec = \<lparr>key_op = KV_OP_ILLEGAL, key_dom = [], key_ns = KV_NS_UNDEFINED, key_ns_part = [],
                   key_id = [], key_id_part = [], key_core = []\<rparr>"

definition sync_record_unset :: "kv_store_value \<Rightarrow> bool" where
  "sync_record_unset value =
     (case value of
        Vector v \<Rightarrow> flags v AND KV_MOD_RESERVED = 0 \<and> vsize v = VVALUE_HEADER_CNT
      | Scalar s \<Rightarrow> sv_flags s \<noteq> KV_MOD_RESERVED \<and> sv_data s = [])"

definition sync_main_kv_record ::
  "64 word \<Rightarrow> kv_store \<Rightarrow> string \<Rightarrow> kv_store_value \<Rightarrow> kv_store option" where
  "sync_main_kv_record sync store key value =
     (let unset = sync_record_unset value;
          update_arg = \<lparr>arg_owner = owner (get_vvalue value), ret_code = - EREMOTEIO\<rparr>;
          opr = (case value of Vector v \<Rightarrow> get_op_from_key key | Scalar s \<Rightarrow> KV_OP_SET);
          key' = (if opr = KV_OP_PLUS \<or> opr = KV_OP_MINUS then drop 1 key else key)
      in if opr = KV_OP_ILLEGAL then None
         else if unset then
           (case kv_store_unset store key' kv_cb_main_unset update_arg of (store', r, arg') \<Rightarrow> Some store')
         else if opr = KV_OP_SET then
           (case kv_store_set_value store key' value KV_STORE_VALUE_NO_OP (main_set_cb sync) update_arg of
              (store', stored, arg') \<Rightarrow> Some store')
         else
           (case kv_delta_set sync key' (get_vvalue value)
                   \<lparr>ds_store = store,
                    ds_rel = \<lparr>rel_delta = zero_delta\<lparr>delta_op := opr\<rparr>, rel_abs_delta = zero_delta,
                              cur_key_spec = no_key_spec, rel_key_spec = no_key_spec\<rparr>,
                    ds_arg = update_arg\<rparr> False of
              Inl f \<Rightarrow> None
            | Inr (r, st) \<Rightarrow> Some (ds_store st)))"

fun sync_main_kv_store :: "64 word \<Rightarrow> kv_store \<Rightarrow> (string \<times> kv_store_value) list \<Rightarrow> int \<times> kv_store" where
  "sync_main_kv_store sync store [] = (0, store)"
| "sync_main_kv_store sync store ((key, value) # rest) =
     (case sync_main_kv_record sync store key value of
        None \<Rightarrow> (- 1, store)
      | Some store' \<Rightarrow> sync_main_kv_store sync store' rest)"





definition ex_reserved_scalar :: kv_store_value where
  "ex_reserved_scalar = Scalar \<lparr>sv_gennum = 1, sv_seqnum = 0, sv_flags = KV_MOD_RESERVED OR KV_PERSISTENT,
                                 sv_owner = ''modA'', sv_data = []\<rparr>"

definition ex_reserved_vector :: kv_store_value where
  "ex_reserved_vector = Vector \<lparr>gennum = 1, seqnum = 0, flags = KV_MOD_RESERVED OR KV_PERSISTENT,
                                 owner = ''modA'', items = []\<rparr>"

section \<open>The command context and the module API\<close>

subsection \<open>Scan phases and their capabilities\<close>

datatype cmd_scan_phase_t =
    CMD_SCAN_PHASE_A_INIT
  | CMD_SCAN_PHASE_A_IDENT
  | CMD_SCAN_PHASE_A_SCAN_PRE
  | CMD_SCAN_PHASE_A_SCAN_CURRENT
  | CMD_SCAN_PHASE_A_SCAN_NEXT
  | CMD_SCAN_PHASE_A_SCAN_POST_CURRENT
  | CMD_SCAN_PHASE_A_SCAN_POST_NEXT
  | CMD_SCAN_PHASE_A_WAITING
  | CMD_SCAN_PHASE_A_EXIT
  | CMD_SCAN_PHASE_B_TRIGGER_ACTION_CURRENT
  | CMD_SCAN_PHASE_B_TRIGGER_ACTION_NEXT
  | CMD_SCAN_PHASE_ERROR



subsection \<open>The context\<close>

datatype udev_action_t =
    UDEV_ACTION_ADD | UDEV_ACTION_CHANGE | UDEV_ACTION_REMOVE | UDEV_ACTION_MOVE | UDEV_ACTION_ONLINE
  | UDEV_ACTION_OFFLINE | UDEV_ACTION_BIND | UDEV_ACTION_UNBIND | UDEV_ACTION_UNKNOWN

datatype udev_devtype_t = UDEV_DEVTYPE_DISK | UDEV_DEVTYPE_PARTITION | UDEV_DEVTYPE_UNKNOWN

text \<open>
  \<open>struct udevice\<close>. The string members point into the store; \<open>None\<close> is a pointer that
  was never set, and for \<open>udev_name\<close> also the pointer the source computes from a device path
  in which \<open>util_str_rstr\<close> finds no slash.
\<close>

record udevice =
  udev_action :: udev_action_t
  udev_type :: udev_devtype_t
  udev_path :: "string option"
  udev_name :: "string option"
  udev_major :: int
  udev_minor :: int
  udev_seqnum :: "64 word"
  udev_diskseq :: "64 word"
  udev_synth_uuid :: "string option"

text \<open>
  The parts of \<open>struct sid_ucmd_ctx\<close> and of its common context that the functions below
  use: the device id, the udev context, the scan phase, the generation number and the store.
\<close>

record sid_ucmd_ctx =
  dev_id :: string
  udev :: udevice
  scan_phase :: cmd_scan_phase_t
  common_gennum :: "16 word"
  kv_store_res :: kv_store

definition MOD_NAME_CORE :: string where "MOD_NAME_CORE = ''#core''"
definition OWNER_CORE :: string where "OWNER_CORE = MOD_NAME_CORE"

text \<open>A module is known by its full name; \<open>None\<close> is the NULL module pointer.\<close>

definition get_mod_name :: "string option \<Rightarrow> string" where
  "get_mod_name md = (case md of None \<Rightarrow> MOD_NAME_CORE | Some name \<Rightarrow> name)"

definition get_ns_part :: "string option \<Rightarrow> sid_ucmd_ctx \<Rightarrow> sid_ucmd_kv_namespace_t \<Rightarrow> string" where
  "get_ns_part md ucmd_ctx n =
     (case n of
        KV_NS_UDEV \<Rightarrow> dev_id ucmd_ctx
      | KV_NS_DEVICE \<Rightarrow> dev_id ucmd_ctx
      | KV_NS_MODULE \<Rightarrow> get_mod_name md
      | KV_NS_GLOBAL \<Rightarrow> []
      | KV_NS_UNDEFINED \<Rightarrow> [])"



subsection \<open>Ready and reserved state\<close>

text \<open>
  \<open>dev_ready_t\<close> and \<open>dev_reserved_t\<close> as ubridge.c uses them. The bytes of a value of
  these enums, as stored in the record, depend on a declaration that is not part of the
  sources; the functions take the encoding as the parameter \<open>enc\<close>.
\<close>

datatype dev_ready_t =
    DEV_NOT_RDY_UNDEFINED | DEV_NOT_RDY_UNPROCESSED | DEV_NOT_RDY_INACCESSIBLE | DEV_NOT_RDY_ACCESSIBLE
  | DEV_RDY_PRIVATE | DEV_RDY_PUBLIC | DEV_RDY_UNAVAILABLE

datatype dev_reserved_t = DEV_RES_UNDEFINED | DEV_RES_UNPROCESSED | DEV_RES_FREE | DEV_RES_RESERVED





definition ex_ctx :: "cmd_scan_phase_t \<Rightarrow> sid_ucmd_ctx" where
  "ex_ctx phase =
     \<lparr>dev_id = ''8_0'',
      udev = \<lparr>udev_action = UDEV_ACTION_ADD, udev_type = UDEV_DEVTYPE_DISK, udev_path = None,
              udev_name = None, udev_major = 8, udev_minor = 0, udev_seqnum = 7, udev_diskseq = 0,
              udev_synth_uuid = None\<rparr>,
      scan_phase = phase, common_gennum = 1, kv_store_res = Map.empty\<rparr>"


subsection \<open>Import of the udev environment\<close>

text \<open>
  Modelled from the spec: the \<open>UDEV_KEY_*\<close> and \<open>UDEV_VALUE_DEVTYPE_*\<close> macros are declared
  outside the sources; the keys are the six names the specification lists.
\<close>

definition UDEV_KEY_ACTION :: string where "UDEV_KEY_ACTION = ''ACTION''"
definition UDEV_KEY_DEVPATH :: string where "UDEV_KEY_DEVPATH = ''DEVPATH''"
definition UDEV_KEY_DEVTYPE :: string where "UDEV_KEY_DEVTYPE = ''DEVTYPE''"
definition UDEV_KEY_SEQNUM :: string where "UDEV_KEY_SEQNUM = ''SEQNUM''"
definition UDEV_KEY_DISKSEQ :: string where "UDEV_KEY_DISKSEQ = ''DISKSEQ''"
definition UDEV_KEY_SYNTH_UUID :: string where "UDEV_KEY_SYNTH_UUID = ''SYNTH_UUID''"
definition UDEV_VALUE_DEVTYPE_DISK :: string where "UDEV_VALUE_DEVTYPE_DISK = ''disk''"
definition UDEV_VALUE_DEVTYPE_PARTITION :: string where "UDEV_VALUE_DEVTYPE_PARTITION = ''partition''"

text \<open>\<open>strcasecmp\<close> of the C library, in the C locale.\<close>

definition c_tolower :: "char \<Rightarrow> char" where
  "c_tolower c = (if (65::nat) \<le> of_char c \<and> of_char c \<le> (90::nat) then char_of (of_char c + (32::nat)) else c)"

definition strcasecmp :: "string \<Rightarrow> string \<Rightarrow> int" where
  "strcasecmp a b = bytes_cmp (map c_tolower (c_str a)) (map c_tolower (c_str b))"

definition util_udev_str_to_udev_action :: "string \<Rightarrow> udev_action_t" where
  "util_udev_str_to_udev_action str =
     (if strcasecmp str ''add'' = 0 then UDEV_ACTION_ADD
      else if strcasecmp str ''change'' = 0 then UDEV_ACTION_CHANGE
      else if strcasecmp str ''remove'' = 0 then UDEV_ACTION_REMOVE
      else if strcasecmp str ''move'' = 0 then UDEV_ACTION_MOVE
      else if strcasecmp str ''online'' = 0 then UDEV_ACTION_ONLINE
      else if strcasecmp str ''offline'' = 0 then UDEV_ACTION_OFFLINE
      else if strcasecmp str ''bind'' = 0 then UDEV_ACTION_BIND
      else if strcasecmp str ''unbind'' = 0 then UDEV_ACTION_UNBIND
      else UDEV_ACTION_UNKNOWN)"

definition util_udev_str_to_udev_devtype :: "string \<Rightarrow> udev_devtype_t" where
  "util_udev_str_to_udev_devtype str =
     (if strcasecmp str UDEV_VALUE_DEVTYPE_DISK = 0 then UDEV_DEVTYPE_DISK
      else if strcasecmp str UDEV_VALUE_DEVTYPE_PARTITION = 0 then UDEV_DEVTYPE_PARTITION
      else UDEV_DEVTYPE_UNKNOWN)"

text \<open>
  \<open>util_str_rstr\<close>: the last position above 0 at which the needle occurs; position 0 is
  never tried. The result is the position, \<open>None\<close> for NULL.
\<close>

fun rstr_from :: "nat \<Rightarrow> string \<Rightarrow> string \<Rightarrow> nat option" where
  "rstr_from 0 haystack needle = None"
| "rstr_from (Suc pos) haystack needle =
     (if take (length needle) (drop (Suc pos) haystack) = needle then Some (Suc pos)
      else rstr_from pos haystack needle)"

definition util_str_rstr :: "string \<Rightarrow> string \<Rightarrow> nat option" where
  "util_str_rstr haystack needle =
     (let h = c_str haystack; n = c_str needle
      in if length n > length h then None else rstr_from (length h - length n) h n)"

text \<open>
  \<open>strtoull\<close> of the C library with base 10: white space, an optional sign, then the value
  of the leading digits; \<open>ULLONG_MAX\<close> when the value does not fit.
\<close>

definition is_digit :: "char \<Rightarrow> bool" where
  "is_digit c = ((48::nat) \<le> of_char c \<and> of_char c \<le> (57::nat))"

definition is_space :: "char \<Rightarrow> bool" where
  "is_space c = ((of_char c :: nat) = 32 \<or> ((9::nat) \<le> of_char c \<and> of_char c \<le> (13::nat)))"

definition digits_value :: "string \<Rightarrow> nat" where
  "digits_value ds = foldl (\<lambda>acc c. 10 * acc + (of_char c - 48)) 0 ds"

definition strtoull :: "string \<Rightarrow> 64 word" where
  "strtoull str =
     (let s = dropWhile is_space (c_str str);
          negative = (s \<noteq> [] \<and> hd s = CHR ''-'');
          s' = (if s \<noteq> [] \<and> (hd s = CHR ''-'' \<or> hd s = CHR ''+'') then tl s else s);
          n = digits_value (takeWhile is_digit s')
      in if n \<ge> 2 ^ 64 then - 1 else if negative then - of_nat n else of_nat n)"

text \<open>The chain of comparisons at the end of \<open>_device_add_field\<close>.\<close>

definition mirror_field :: "string \<Rightarrow> string \<Rightarrow> udevice \<Rightarrow> udevice" where
  "mirror_field key value dev =
     (if strcmp key UDEV_KEY_ACTION = 0 then dev\<lparr>udev_action := util_udev_str_to_udev_action value\<rparr>
      else if strcmp key UDEV_KEY_DEVPATH = 0 then
        dev\<lparr>udev_path := Some (c_str value),
            udev_name := (case util_str_rstr value ''/'' of
                            None \<Rightarrow> None
                          | Some pos \<Rightarrow> Some (drop (pos + 1) (c_str value)))\<rparr>
      else if strcmp key UDEV_KEY_DEVTYPE = 0 then dev\<lparr>udev_type := util_udev_str_to_udev_devtype value\<rparr>
      else if strcmp key UDEV_KEY_SEQNUM = 0 then dev\<lparr>udev_seqnum := strtoull value\<rparr>
      else if strcmp key UDEV_KEY_DISKSEQ = 0 then dev\<lparr>udev_diskseq := strtoull value\<rparr>
      else if strcmp key UDEV_KEY_SYNTH_UUID = 0 then dev\<lparr>udev_synth_uuid := Some (c_str value)\<rparr>
      else dev)"




definition devno_of :: "string \<Rightarrow> 64 word" where
  "devno_of bytes = of_nat (foldr (\<lambda>c acc. of_char c + 256 * acc) bytes 0)"

definition gnu_dev_major :: "64 word \<Rightarrow> 32 word" where
  "gnu_dev_major dev = ucast ((drop_bit 8 dev AND 0xfff) OR (drop_bit 32 dev AND NOT 0xfff))"

definition gnu_dev_minor :: "64 word \<Rightarrow> 32 word" where
  "gnu_dev_minor dev = ucast ((dev AND 0xff) OR (drop_bit 12 dev AND NOT 0xff))"

function dec_nat :: "nat \<Rightarrow> string" where
  "dec_nat n = (if n < 10 then [char_of (48 + n)] else dec_nat (n div 10) @ [char_of (48 + n mod 10)])"
  by pat_completeness auto
termination
  by (relation "measure (\<lambda>n. n)") auto

definition dec :: "int \<Rightarrow> string" where
  "dec i = (if i < 0 then CHR ''-'' # dec_nat (nat (- i)) else dec_nat (nat i))"


text \<open>
  What the import of one well-formed field \<open>KEY=VALUE\<close> does to the context, and the
  environment made of a list of such fields.
\<close>

definition udev_key :: "sid_ucmd_ctx \<Rightarrow> string \<Rightarrow> string" where
  "udev_key ucmd_ctx k =
     compose_key \<lparr>key_op = KV_OP_SET, key_dom = [], key_ns = KV_NS_UDEV, key_ns_part = dev_id ucmd_ctx,
                  key_id = [], key_id_part = [], key_core = k\<rparr>"

definition import_record :: "sid_ucmd_ctx \<Rightarrow> string \<Rightarrow> kv_store_value" where
  "import_record ucmd_ctx v =
     Scalar \<lparr>sv_gennum = common_gennum ucmd_ctx, sv_seqnum = udev_seqnum (udev ucmd_ctx), sv_flags = 0,
             sv_owner = MOD_NAME_CORE, sv_data = v @ [CHR 0x00]\<rparr>"

definition import_one :: "sid_ucmd_ctx \<Rightarrow> string \<times> string \<Rightarrow> sid_ucmd_ctx" where
  "import_one ucmd_ctx e =
     (case e of (k, v) \<Rightarrow>
        ucmd_ctx\<lparr>kv_store_res := (kv_store_res ucmd_ctx)(udev_key ucmd_ctx k \<mapsto> import_record ucmd_ctx v),
                 udev := mirror_field k (v @ [CHR 0x00]) (udev ucmd_ctx)\<rparr>)"





text \<open>
  The context of \<open>_parse_cmd_udev_env\<close> once the device number is read, and an example
  device number (major 8, minor 0).
\<close>

definition devno_ctx :: "sid_ucmd_ctx \<Rightarrow> string \<Rightarrow> sid_ucmd_ctx" where
  "devno_ctx ucmd_ctx bytes =
     ucmd_ctx\<lparr>udev := (udev ucmd_ctx)\<lparr>udev_major := sint (gnu_dev_major (devno_of bytes)),
                                       udev_minor := sint (gnu_dev_minor (devno_of bytes))\<rparr>,
              dev_id := dec (sint (gnu_dev_major (devno_of bytes))) @ ''_'' @
                        dec (sint (gnu_dev_minor (devno_of bytes)))\<rparr>"

definition ex_devno :: string where
  "ex_devno = [CHR 0x00, CHR 0x08, CHR 0x00, CHR 0x00, CHR 0x00, CHR 0x00, CHR 0x00, CHR 0x00]"

section \<open>Client connections\<close>

text \<open>
  Modelled from the spec: \<open>struct sid_msg_header\<close>, \<open>SID_CMD_STATUS_FAILURE\<close> and the
  buffer functions are declared outside the sources. The header has the four fields of the wire
  protocol and \<open>FAILURE\<close> is 1. Of a buffer, the model keeps the header at the start of its
  memory, the bytes after it, and the number of bytes in use; \<open>sid_buffer_rewind\<close> to 0 and
  \<open>sid_buffer_reset\<close> leave the memory and set the bytes in use to 0, and a successful
  \<open>sid_buffer_add\<close> of a header to an empty buffer puts it at the start.
\<close>

record sid_msg_header =
  msg_status :: "64 word"
  msg_prot :: "8 word"
  msg_cmd :: "8 word"
  msg_flags :: "16 word"

definition SID_CMD_STATUS_FAILURE :: "64 word" where "SID_CMD_STATUS_FAILURE = 1"

record sid_buffer =
  buf_header :: sid_msg_header
  buf_body :: string
  buf_used :: nat

text \<open>
  A connection: its buffer, the buffers handed to \<open>sid_buffer_write_all\<close> for its socket
  so far, and whether the connection resource is still referenced.
\<close>

record connection =
  conn_buf :: sid_buffer
  conn_written :: "sid_buffer list"
  conn_alive :: bool

text \<open>
  What the code outside the sources gives back during one connection event: the value of
  \<open>SID_PROTOCOL\<close>, the size of the header, whether the peer may run the command, the
  results of \<open>sid_buffer_add\<close> and \<open>sid_buffer_write_all\<close>, and the result of the steps
  of \<open>_init_command\<close> after the protocol check.
\<close>

record event_env =
  env_protocol :: nat
  env_header_size :: nat
  env_client_capable :: bool
  env_buffer_add :: int
  env_buffer_write_all :: int
  env_init_rest :: int

definition EINTR :: int where "EINTR = 4"
definition EAGAIN :: int where "EAGAIN = 11"

definition sid_buffer_rewind :: "sid_buffer \<Rightarrow> sid_buffer" where
  "sid_buffer_rewind buf = buf\<lparr>buf_used := 0\<rparr>"

definition sid_buffer_reset :: "sid_buffer \<Rightarrow> sid_buffer" where
  "sid_buffer_reset buf = buf\<lparr>buf_used := 0\<rparr>"

definition sid_buffer_add_header :: "event_env \<Rightarrow> sid_buffer \<Rightarrow> sid_msg_header \<Rightarrow> int \<times> sid_buffer" where
  "sid_buffer_add_header env buf hdr =
     (if env_buffer_add env < 0 then (env_buffer_add env, buf)
      else (env_buffer_add env,
            if buf_used buf = 0 then buf\<lparr>buf_header := hdr, buf_used := env_header_size env\<rparr>
            else buf\<lparr>buf_used := buf_used buf + env_header_size env\<rparr>))"

text \<open>
  \<open>_reply_failure\<close>: the protocol of the request is read from the buffer, the buffer is
  rewound, and only for a protocol not above \<open>SID_PROTOCOL\<close> a response header is added;
  \<open>sid_buffer_write_all\<close> is called when adding the header failed.
\<close>

definition reply_failure :: "event_env \<Rightarrow> connection \<Rightarrow> int \<times> connection" where
  "reply_failure env conn =
     (let response_header = \<lparr>msg_status = SID_CMD_STATUS_FAILURE, msg_prot = 0, msg_cmd = 0, msg_flags = 0\<rparr>;
          prot = msg_prot (buf_header (conn_buf conn));
          conn1 = conn\<lparr>conn_buf := sid_buffer_rewind (conn_buf conn)\<rparr>
      in if unat prot \<le> env_protocol env then
           case sid_buffer_add_header env (conn_buf conn1) (response_header\<lparr>msg_prot := prot\<rparr>) of
             (r, buf') \<Rightarrow>
               if r < 0
               then (env_buffer_write_all env,
                     conn1\<lparr>conn_buf := buf', conn_written := conn_written conn1 @ [buf']\<rparr>)
               else (r, conn1\<lparr>conn_buf := buf'\<rparr>)
         else (- 1, conn1))"

text \<open>
  \<open>_check_msg\<close> for a client message, without the mapping of unknown command numbers, and
  \<open>_init_command\<close>: the exact protocol is required before anything else is set up. The
  result 0 of \<open>_init_command\<close> means that the command handler is registered.
\<close>

definition check_msg :: "event_env \<Rightarrow> connection \<Rightarrow> int" where
  "check_msg env conn =
     (if buf_used (conn_buf conn) < env_header_size env then - 1
      else if \<not> env_client_capable env then - 1
      else 0)"

definition init_command :: "event_env \<Rightarrow> sid_msg_header \<Rightarrow> int" where
  "init_command env header =
     (if unat (msg_prot header) \<noteq> env_protocol env then - 1
      else if env_init_rest env < 0 then - 1
      else 0)"

text \<open>
  \<open>_create_command_resource\<close>: \<open>sid_resource_create\<close> returns NULL when the \<open>init\<close>
  function of the resource type fails.
\<close>

definition create_command_resource :: "event_env \<Rightarrow> connection \<Rightarrow> int" where
  "create_command_resource env conn =
     (if check_msg env conn < 0 then - 1
      else if init_command env (buf_header (conn_buf conn)) < 0 then - 1
      else 0)"

definition connection_cleanup :: "connection \<Rightarrow> connection" where
  "connection_cleanup conn = conn\<lparr>conn_alive := False\<rparr>"

text \<open>
  \<open>_on_connection_event\<close>, after \<open>sid_buffer_read\<close> has returned \<open>n\<close> and left the
  buffer as \<open>conn\<close> has it; \<open>err\<close> is \<open>revents & EPOLLERR\<close> and \<open>complete\<close> the result of
  \<open>sid_buffer_is_complete\<close>. The result is the value returned, the connection, and whether a
  command was scheduled for execution.
\<close>

definition on_connection_event ::
  "event_env \<Rightarrow> connection \<Rightarrow> bool \<Rightarrow> int \<Rightarrow> bool \<Rightarrow> int \<times> connection \<times> bool" where
  "on_connection_event env conn err n complete =
     (if err then (- 1, connection_cleanup conn, False)
      else if n > 0 then
        (if complete then
           (if create_command_resource env conn < 0 then
              (case reply_failure env conn of
                 (r, conn') \<Rightarrow>
                   if r < 0 then (- 1, connection_cleanup conn', False)
                   else (0, conn'\<lparr>conn_buf := sid_buffer_reset (conn_buf conn')\<rparr>, False))
            else (0, conn\<lparr>conn_buf := sid_buffer_reset (conn_buf conn)\<rparr>, True))
         else (0, conn, False))
      else if n < 0 then
        (if n \<noteq> - EAGAIN \<and> n \<noteq> - EINTR then (- 1, conn, False) else (0, conn, False))
      else (0, connection_cleanup conn, False))"

definition ex_request :: "8 word \<Rightarrow> connection" where
  "ex_request p =
     \<lparr>conn_buf = \<lparr>buf_header = \<lparr>msg_status = 0, msg_prot = p, msg_cmd = 6, msg_flags = 0\<rparr>,
                  buf_body = [], buf_used = 12\<rparr>,
      conn_written = [], conn_alive = True\<rparr>"

definition ex_env :: event_env where
  "ex_env = \<lparr>env_protocol = 2, env_header_size = 12, env_client_capable = True, env_buffer_add = 0,
             env_buffer_write_all = 0, env_init_rest = 0\<rparr>"

subsection \<open>Groups\<close>

definition KV_KEY_DOM_USER :: string where "KV_KEY_DOM_USER = ''USR''"
definition KV_KEY_GEN_GROUP_MEMBERS :: string where "KV_KEY_GEN_GROUP_MEMBERS = ''#GMB''"
definition KV_KEY_GEN_GROUP_IN :: string where "KV_KEY_GEN_GROUP_IN = ''#GIN''"

text \<open>
  \<open>_handle_current_dev_for_group\<close>, which \<open>sid_ucmd_group_add_current_dev\<close> calls with
  \<open>KV_OP_PLUS\<close> and \<open>sid_ucmd_group_remove_current_dev\<close> with \<open>KV_OP_MINUS\<close>: one delta
  set on the members key of the group, with the prefix of the device's \<open>#GIN\<close> key as the
  only item and with \<open>DELTA_WITH_DIFF | DELTA_WITH_REL\<close>. The function returns its initial
  \<open>r = -1\<close> on every path.
\<close>

definition group_key_spec :: "string option \<Rightarrow> sid_ucmd_ctx \<Rightarrow> sid_ucmd_kv_namespace_t \<Rightarrow> string \<Rightarrow> kv_key_spec" where
  "group_key_spec md ucmd_ctx group_ns group_id =
     \<lparr>key_op = KV_OP_SET, key_dom = KV_KEY_DOM_USER, key_ns = group_ns,
      key_ns_part = get_ns_part md ucmd_ctx group_ns, key_id = group_id, key_id_part = [],
      key_core = KV_KEY_GEN_GROUP_MEMBERS\<rparr>"

definition group_in_key_spec :: "string option \<Rightarrow> sid_ucmd_ctx \<Rightarrow> kv_key_spec" where
  "group_in_key_spec md ucmd_ctx =
     \<lparr>key_op = KV_OP_SET, key_dom = [], key_ns = KV_NS_DEVICE,
      key_ns_part = get_ns_part md ucmd_ctx KV_NS_DEVICE, key_id = [], key_id_part = [],
      key_core = KV_KEY_GEN_GROUP_IN\<rparr>"

definition handle_current_dev_for_group ::
  "64 word \<Rightarrow> string option \<Rightarrow> sid_ucmd_ctx \<Rightarrow> sid_ucmd_kv_namespace_t \<Rightarrow> string \<Rightarrow> kv_op_t \<Rightarrow>
   failure + int \<times> sid_ucmd_ctx" where
  "handle_current_dev_for_group sync md ucmd_ctx group_ns group_id opr =
     (let rel_spec = \<lparr>rel_delta = zero_delta\<lparr>delta_op := opr, delta_flags := DELTA_WITH_DIFF OR DELTA_WITH_REL\<rparr>,
                      rel_abs_delta = zero_delta,
                      cur_key_spec = group_key_spec md ucmd_ctx group_ns group_id,
                      rel_key_spec = group_in_key_spec md ucmd_ctx\<rparr>;
          update_arg = \<lparr>arg_owner = OWNER_CORE, ret_code = 0\<rparr>;
          key = compose_key (cur_key_spec rel_spec);
          rel_key_prefix = compose_key_prefix (rel_key_spec rel_spec);
          vvalue = \<lparr>gennum = common_gennum ucmd_ctx, seqnum = udev_seqnum (udev ucmd_ctx),
                    flags = value_flags_no_sync sync, owner = OWNER_CORE,
                    items = [rel_key_prefix @ [CHR 0x00]]\<rparr>
      in case kv_delta_set sync key vvalue
                \<lparr>ds_store = kv_store_res ucmd_ctx, ds_rel = rel_spec, ds_arg = update_arg\<rparr> True of
           Inl f \<Rightarrow> Inl f
         | Inr (r, st) \<Rightarrow> Inr (- 1, ucmd_ctx\<lparr>kv_store_res := ds_store st\<rparr>))"

definition sid_ucmd_group_add_current_dev ::
  "64 word \<Rightarrow> string option \<Rightarrow> sid_ucmd_ctx option \<Rightarrow> sid_ucmd_kv_namespace_t \<Rightarrow> string option \<Rightarrow>
   failure + int \<times> sid_ucmd_ctx option" where
  "sid_ucmd_group_add_current_dev sync md ctx_ptr group_ns group_id =
     (case (md, ctx_ptr, group_id) of
        (Some m, Some ucmd_ctx, Some gid) \<Rightarrow>
          if group_ns = KV_NS_UNDEFINED \<or> c_str gid = [] then Inr (- EINVAL, ctx_ptr)
          else (case handle_current_dev_for_group sync md ucmd_ctx group_ns gid KV_OP_PLUS of
                  Inl f \<Rightarrow> Inl f
                | Inr (r, ctx') \<Rightarrow> Inr (r, Some ctx'))
      | _ \<Rightarrow> Inr (- EINVAL, ctx_ptr))"

definition sid_ucmd_group_remove_current_dev ::
  "64 word \<Rightarrow> string option \<Rightarrow> sid_ucmd_ctx option \<Rightarrow> sid_ucmd_kv_namespace_t \<Rightarrow> string option \<Rightarrow>
   failure + int \<times> sid_ucmd_ctx option" where
  "sid_ucmd_group_remove_current_dev sync md ctx_ptr group_ns group_id =
     (case (md, ctx_ptr, group_id) of
        (Some m, Some ucmd_ctx, Some gid) \<Rightarrow>
          if group_ns = KV_NS_UNDEFINED \<or> c_str gid = [] then Inr (- EINVAL, ctx_ptr)
          else (case handle_current_dev_for_group sync md ucmd_ctx group_ns gid KV_OP_MINUS of
                  Inl f \<Rightarrow> Inl f
                | Inr (r, ctx') \<Rightarrow> Inr (r, Some ctx'))
      | _ \<Rightarrow> Inr (- EINVAL, ctx_ptr))"

text \<open>The members key of group \<open>g\<close> of module \<open>mod\<close> and the \<open>#GIN\<close> key of device 8_0.\<close>

definition ex_group_key :: string where "ex_group_key = '' :USR:M:mod:g::#GMB''"
definition ex_group_in_key :: string where "ex_group_in_key = '' ::D:8_0:::#GIN''"

text \<open>
  A snapshot in which device 8_0 is a member of group \<open>g\<close>, with the relation stored both
  ways and no absolute delta recorded yet.
\<close>

definition ex_group_ctx :: sid_ucmd_ctx where
  "ex_group_ctx =
     (ex_ctx CMD_SCAN_PHASE_A_SCAN_CURRENT)
       \<lparr>kv_store_res :=
          [ex_group_key \<mapsto> Vector \<lparr>gennum = 1, seqnum = 6, flags = 13, owner = ''#core'',
                                     items = [''::D:8_0::'' @ [CHR 0x00]]\<rparr>,
           ex_group_in_key \<mapsto> Vector \<lparr>gennum = 1, seqnum = 6, flags = 13, owner = ''#core'',
                                        items = ['':USR:M:mod:g:'' @ [CHR 0x00]]\<rparr>]\<rparr>"

text \<open>Auxiliary notions for the proofs about the nesting of delta sets.\<close>

definition rel_flags :: "kv_rel_spec \<Rightarrow> nat" where
  "rel_flags rs = delta_flags (rel_delta rs)"

definition keeps_flags :: "nat \<Rightarrow> failure + int \<times> delta_state \<Rightarrow> bool" where
  "keeps_flags fl res =
     (case res of Inl f \<Rightarrow> f \<noteq> Out_Of_Fuel | Inr (r, st') \<Rightarrow> rel_flags (ds_rel st') = fl)"



section \<open>Properties\<close>

subsection \<open>The walk computes the table\<close>

















subsection \<open>\<open>strcmp\<close> is a strict order on C strings\<close>

lemma of_char_zero_iff: "(of_char c :: nat) = 0 \<longleftrightarrow> c = CHR 0x00"
proof -
  have "(of_char c :: nat) = of_char (CHR 0x00) \<longleftrightarrow> c = CHR 0x00"
    by (rule of_char_eq_iff)
  then show ?thesis by simp
qed

lemma of_char_pos: "c \<noteq> CHR 0x00 \<Longrightarrow> 0 < (of_char c :: nat)"
  using of_char_zero_iff[of c] by simp

lemma bytes_cmp_antisym: "bytes_cmp b a = - bytes_cmp a b"
  by (induction a b rule: bytes_cmp.induct) auto

lemma bytes_cmp_eq0:
  "CHR 0x00 \<notin> set a \<Longrightarrow> CHR 0x00 \<notin> set b \<Longrightarrow> bytes_cmp a b = 0 \<longleftrightarrow> a = b"
  by (induction a b rule: bytes_cmp.induct) (auto simp: of_char_zero_iff)

lemma bytes_cmp_less_Nil: "CHR 0x00 \<notin> set b \<Longrightarrow> bytes_cmp [] b < 0 \<longleftrightarrow> b \<noteq> []"
  by (cases b) (auto simp: of_char_pos)

lemma bytes_cmp_Nil_right: "\<not> bytes_cmp a [] < 0"
  by (cases a) auto

lemma bytes_cmp_trans:
  "CHR 0x00 \<notin> set a \<Longrightarrow> CHR 0x00 \<notin> set b \<Longrightarrow> CHR 0x00 \<notin> set c \<Longrightarrow>
   bytes_cmp a b < 0 \<Longrightarrow> bytes_cmp b c < 0 \<Longrightarrow> bytes_cmp a c < 0"
proof (induction a arbitrary: b c)
  case Nil
  then show ?case by (cases b; cases c) (auto simp: of_char_pos)
next
  case (Cons x xs)
  show ?case
  proof (cases b)
    case Nil
    then show ?thesis using Cons.prems by simp
  next
    case b: (Cons y ys)
    show ?thesis
    proof (cases c)
      case Nil
      then show ?thesis using Cons.prems b by simp
    next
      case c: (Cons z zs)
      show ?thesis
      proof (cases "x = y")
        case True
        show ?thesis
        proof (cases "y = z")
          case yz: True
          then show ?thesis using Cons.prems Cons.IH[of ys zs] b c True by simp
        next
          case False
          then show ?thesis using Cons.prems b c True by simp
        qed
      next
        case False
        then have xy: "(of_char x :: nat) < of_char y" using Cons.prems b by simp
        show ?thesis
        proof (cases "y = z")
          case True
          then show ?thesis using Cons.prems b c False by simp
        next
          case yz: False
          then have "(of_char y :: nat) < of_char z" using Cons.prems b c by simp
          with xy have "(of_char x :: nat) < of_char z" by simp
          then show ?thesis using c by auto
        qed
      qed
    qed
  qed
qed

lemma c_str_no_nul: "CHR 0x00 \<notin> set (c_str s)"
  by (auto simp: c_str_def dest: set_takeWhileD)

lemma strcmp_antisym: "strcmp b a = - strcmp a b"
  by (simp add: strcmp_def bytes_cmp_antisym[of "c_str b"])

lemma strcmp_eq0_iff: "strcmp a b = 0 \<longleftrightarrow> c_str a = c_str b"
  by (simp add: strcmp_def bytes_cmp_eq0 c_str_no_nul)

lemma strcmp_trans: "strcmp a b < 0 \<Longrightarrow> strcmp b c < 0 \<Longrightarrow> strcmp a c < 0"
  unfolding strcmp_def by (rule bytes_cmp_trans[OF c_str_no_nul c_str_no_nul c_str_no_nul])

lemma strcmp_eq_trans_less:
  assumes "strcmp a b = 0" and "strcmp b c < 0"
  shows "strcmp a c < 0"
proof -
  have "c_str a = c_str b" using assms(1) by (simp add: strcmp_eq0_iff)
  then show ?thesis using assms(2) by (simp add: strcmp_def)
qed

lemma strcmp_less_eq_trans:
  assumes "strcmp a b < 0" and "strcmp b c = 0"
  shows "strcmp a c < 0"
proof -
  have "c_str b = c_str c" using assms(2) by (simp add: strcmp_eq0_iff)
  then show ?thesis using assms(1) by (simp add: strcmp_def)
qed

subsection \<open>The table on sorted vectors\<close>

lemma in_vec_Nil: "\<not> in_vec x []"
  by (simp add: in_vec_def)

lemma in_vec_Cons: "in_vec x (y # ys) \<longleftrightarrow> strcmp x y = 0 \<or> in_vec x ys"
  by (auto simp: in_vec_def)

lemma sorted_items_Cons:
  "sorted_items (x # xs) \<longleftrightarrow> (\<forall>y \<in> set xs. strcmp x y < 0) \<and> sorted_items xs"
  by (simp add: sorted_items_def)

lemma sorted_items_Nil: "sorted_items []"
  by (simp add: sorted_items_def)

lemma less_all:
  assumes "strcmp a b < 0 \<or> strcmp a b = 0" and "sorted_items (b # bs)" and "y \<in> set bs"
  shows "strcmp a y < 0"
proof -
  have "strcmp b y < 0" using assms(2,3) by (simp add: sorted_items_Cons)
  then show ?thesis using assms(1) strcmp_trans strcmp_eq_trans_less by blast
qed

lemma not_in_vec_less: "\<forall>y \<in> set ys. strcmp a y < 0 \<Longrightarrow> \<not> in_vec a ys"
  by (auto simp: in_vec_def)

lemma not_in_vec_greater: "\<forall>y \<in> set ys. strcmp y a < 0 \<Longrightarrow> \<not> in_vec a ys"
  using strcmp_antisym[of a] by (auto simp: in_vec_def)

lemma in_vec_drop_head:
  "strcmp y a \<noteq> 0 \<Longrightarrow> in_vec y (a # as) = in_vec y as"
  by (simp add: in_vec_Cons)

lemma filter_drop_head:
  "\<forall>y \<in> set ys. strcmp y a \<noteq> 0 \<Longrightarrow>
   filter (\<lambda>y. in_vec y (a # as)) ys = filter (\<lambda>y. in_vec y as) ys \<and>
   filter (\<lambda>y. \<not> in_vec y (a # as)) ys = filter (\<lambda>y. \<not> in_vec y as) ys"
  by (auto intro!: filter_cong simp: in_vec_Cons)

text \<open>The three situations of the walk, for sorted vectors.\<close>

lemma old_less:
  assumes "strcmp a b < 0" and "sorted_items (b # bs)"
  shows "\<not> in_vec a (b # bs)" and "\<forall>y \<in> set (b # bs). strcmp y a \<noteq> 0"
proof -
  have l: "\<forall>y \<in> set (b # bs). strcmp a y < 0"
    using assms less_all[of a b bs] by auto
  then show "\<not> in_vec a (b # bs)" by (rule not_in_vec_less)
  show "\<forall>y \<in> set (b # bs). strcmp y a \<noteq> 0"
    using l strcmp_antisym[of a] by fastforce
qed

lemma new_less:
  assumes "0 < strcmp a b" and "sorted_items (a # as)"
  shows "\<not> in_vec b (a # as)" and "\<forall>x \<in> set (a # as). strcmp x b \<noteq> 0"
proof -
  have "strcmp b a < 0" using assms(1) strcmp_antisym[of a b] by simp
  then show "\<not> in_vec b (a # as)" "\<forall>x \<in> set (a # as). strcmp x b \<noteq> 0"
    using old_less[of b a as] assms(2) by auto
qed

lemma both_eq:
  assumes "\<not> strcmp a b < 0" and "\<not> 0 < strcmp a b" and "sorted_items (a # as)" and "sorted_items (b # bs)"
  shows "in_vec b (a # as)" and "in_vec a (b # bs)"
    and "\<forall>y \<in> set bs. strcmp y a \<noteq> 0" and "\<forall>x \<in> set as. strcmp x b \<noteq> 0"
proof -
  have e: "strcmp a b = 0" using assms(1,2) by simp
  then have e': "strcmp b a = 0" using strcmp_antisym[of a b] by simp
  show "in_vec b (a # as)" using e' by (simp add: in_vec_Cons)
  show "in_vec a (b # bs)" using e by (simp add: in_vec_Cons)
  have "\<forall>y \<in> set bs. strcmp a y < 0" using less_all[of a b bs] e assms(4) by auto
  then show "\<forall>y \<in> set bs. strcmp y a \<noteq> 0" using strcmp_antisym[of a] by fastforce
  have "\<forall>x \<in> set as. strcmp b x < 0" using less_all[of b a as] e' assms(3) by auto
  then show "\<forall>x \<in> set as. strcmp x b \<noteq> 0" using strcmp_antisym[of b] by fastforce
qed


lemma proj_join3:
  "fst (join3 x y) = fst x @ fst y"
  "fst (snd (join3 x y)) = fst (snd x) @ fst (snd y)"
  "snd (snd (join3 x y)) = snd (snd x) @ snd (snd y)"
  by (cases x; cases y; simp add: join3_def)+

lemma step_old:
  assumes "strcmp a b < 0" and "sorted_items (b # bs)" and "opr \<noteq> KV_OP_ILLEGAL"
  shows "sorted_plus opr (a # as) (b # bs) = fst (only_in_old opr a) @ sorted_plus opr as (b # bs)"
    and "sorted_minus opr (a # as) (b # bs) = fst (snd (only_in_old opr a)) @ sorted_minus opr as (b # bs)"
  using old_less[OF assms(1,2)] assms(3)
  by (cases opr; auto simp: sorted_plus_def sorted_minus_def only_in_old_def in_vec_Cons intro!: filter_cong)+

lemma step_new:
  assumes "0 < strcmp a b" and "sorted_items (a # as)" and "opr \<noteq> KV_OP_ILLEGAL"
  shows "sorted_plus opr (a # as) (b # bs) = fst (only_in_new opr b) @ sorted_plus opr (a # as) bs"
    and "sorted_minus opr (a # as) (b # bs) = fst (snd (only_in_new opr b)) @ sorted_minus opr (a # as) bs"
  using new_less[OF assms(1,2)] assms(3)
  by (cases opr; auto simp: sorted_plus_def sorted_minus_def only_in_new_def in_vec_Cons intro!: filter_cong)+

lemma step_both:
  assumes "\<not> strcmp a b < 0" and "\<not> 0 < strcmp a b" and "sorted_items (a # as)"
    and "sorted_items (b # bs)" and "opr \<noteq> KV_OP_ILLEGAL"
  shows "sorted_plus opr (a # as) (b # bs) = fst (in_both opr b) @ sorted_plus opr as bs"
    and "sorted_minus opr (a # as) (b # bs) = fst (snd (in_both opr b)) @ sorted_minus opr as bs"
  using both_eq[OF assms(1-4)] assms(5)
  by (cases opr; auto simp: sorted_plus_def sorted_minus_def in_both_def in_vec_Cons intro!: filter_cong)+

lemma table_plus_minus_sorted:
  "sorted_items as \<Longrightarrow> sorted_items bs \<Longrightarrow> opr \<noteq> KV_OP_ILLEGAL \<Longrightarrow>
   table_plus opr as bs = sorted_plus opr as bs \<and> table_minus opr as bs = sorted_minus opr as bs"
proof (induction opr as bs rule: table_walk.induct)
  case (1 opr a as b bs)
  have sa: "sorted_items as" and sb: "sorted_items bs"
    using 1(4,5) by (simp_all add: sorted_items_Cons)
  show ?case
  proof (cases "strcmp a b < 0")
    case True
    show ?thesis using True 1(1)[OF True sa 1(5) 1(6)] step_old[OF True 1(5) 1(6), of as]
      by (simp add: table_plus_def table_minus_def proj_join3)
  next
    case False
    show ?thesis
    proof (cases "0 < strcmp a b")
      case True
      show ?thesis using False True 1(2)[OF False True 1(4) sb 1(6)] step_new[OF True 1(4) 1(6), of bs]
        by (simp add: table_plus_def table_minus_def proj_join3)
    next
      case eq: False
      show ?thesis using False eq 1(3)[OF False eq sa sb 1(6)] step_both[OF False eq 1(4) 1(5) 1(6)]
        by (simp add: table_plus_def table_minus_def proj_join3)
    qed
  qed
next
  case (2 opr b bs)
  have sb: "sorted_items bs" using 2(3) by (simp add: sorted_items_Cons)
  show ?case using 2(1)[OF 2(2) sb 2(4)] 2(4)
    by (cases opr) (simp_all add: table_plus_def table_minus_def proj_join3 sorted_plus_def
        sorted_minus_def only_in_new_def in_vec_Nil)
next
  case (3 opr a as)
  have sa: "sorted_items as" using 3(2) by (simp add: sorted_items_Cons)
  show ?case using 3(1)[OF sa 3(3) 3(4)] 3(4)
    by (cases opr) (simp_all add: table_plus_def table_minus_def proj_join3 sorted_plus_def
        sorted_minus_def only_in_old_def in_vec_Nil)
next
  case (4 opr)
  then show ?case
    by (cases opr) (simp_all add: table_plus_def table_minus_def sorted_plus_def sorted_minus_def)
qed

lemma table_final_minus_sorted:
  "sorted_items as \<Longrightarrow> sorted_items bs \<Longrightarrow>
   table_final KV_OP_MINUS as bs = filter (\<lambda>a. \<not> in_vec a bs) as"
proof (induction opr\<equiv>KV_OP_MINUS as bs rule: table_walk.induct)
  case (1 a as b bs)
  have sa: "sorted_items as" and sb: "sorted_items bs"
    using 1(4,5) by (simp_all add: sorted_items_Cons)
  show ?case
  proof (cases "strcmp a b < 0")
    case True
    show ?thesis using True 1(1)[OF True sa 1(5)] old_less[OF True 1(5)]
      by (simp add: table_final_def proj_join3 only_in_old_def)
  next
    case False
    show ?thesis
    proof (cases "0 < strcmp a b")
      case True
      have "filter (\<lambda>x. \<not> in_vec x (b # bs)) (a # as) = filter (\<lambda>x. \<not> in_vec x bs) (a # as)"
        using new_less(2)[OF True 1(4)] by (intro filter_cong) (auto simp: in_vec_Cons)
      then show ?thesis using False True 1(2)[OF False True 1(4) sb]
        by (simp add: table_final_def proj_join3 only_in_new_def)
    next
      case eq: False
      note b = both_eq[OF False eq 1(4) 1(5)]
      have "filter (\<lambda>x. \<not> in_vec x (b # bs)) as = filter (\<lambda>x. \<not> in_vec x bs) as"
        using b(4) by (intro filter_cong) (auto simp: in_vec_Cons)
      then show ?thesis using False eq 1(3)[OF False eq sa sb] b(2)
        by (simp add: table_final_def proj_join3 in_both_def)
    qed
  qed
next
  case (2 b bs)
  have sb: "sorted_items bs" using 2(3) by (simp add: sorted_items_Cons)
  show ?case using 2(1)[OF 2(2) sb] by (simp add: table_final_def proj_join3 only_in_new_def)
next
  case (3 a as)
  have sa: "sorted_items as" using 3(2) by (simp add: sorted_items_Cons)
  show ?case using 3(1)[OF sa 3(3)]
    by (simp add: table_final_def proj_join3 only_in_old_def in_vec_Nil)
next
  case 4
  then show ?case by (simp add: table_final_def)
qed

lemma table_final_plus_set:
  "set (table_final KV_OP_PLUS as bs) \<subseteq> set as \<union> set bs \<and> set bs \<subseteq> set (table_final KV_OP_PLUS as bs)
   \<and> {a \<in> set as. \<not> in_vec a bs} \<subseteq> set (table_final KV_OP_PLUS as bs)"
proof (induction opr\<equiv>KV_OP_PLUS as bs rule: table_walk.induct)
  case (1 a as b bs)
  show ?case
  proof (cases "strcmp a b < 0")
    case True
    then show ?thesis using 1(1)[OF True]
      by (auto simp: table_final_def proj_join3 only_in_old_def)
  next
    case False
    show ?thesis
    proof (cases "0 < strcmp a b")
      case True
      then show ?thesis using False 1(2)[OF False True]
        by (auto simp: table_final_def proj_join3 only_in_new_def in_vec_Cons)
    next
      case eq: False
      then show ?thesis using False 1(3)[OF False eq]
        by (auto simp: table_final_def proj_join3 in_both_def in_vec_Cons)
    qed
  qed
next
  case (2 b bs)
  then show ?case by (auto simp: table_final_def proj_join3 only_in_new_def)
next
  case (3 a as)
  then show ?case by (auto simp: table_final_def proj_join3 only_in_old_def in_vec_Nil)
next
  case 4
  then show ?case by (simp add: table_final_def)
qed

lemma table_final_plus_sorted:
  "sorted_items as \<Longrightarrow> sorted_items bs \<Longrightarrow> sorted_items (table_final KV_OP_PLUS as bs)"
proof (induction opr\<equiv>KV_OP_PLUS as bs rule: table_walk.induct)
  case (1 a as b bs)
  have sa: "sorted_items as" and sb: "sorted_items bs"
    using 1(4,5) by (simp_all add: sorted_items_Cons)
  show ?case
  proof (cases "strcmp a b < 0")
    case True
    have "\<forall>y \<in> set as \<union> set (b # bs). strcmp a y < 0"
      using 1(4) True less_all[of a b bs] 1(5) by (auto simp: sorted_items_Cons)
    then have "\<forall>y \<in> set (table_final KV_OP_PLUS as (b # bs)). strcmp a y < 0"
      using table_final_plus_set[of as "b # bs"] by blast
    then show ?thesis using True 1(1)[OF True sa 1(5)]
      by (simp add: table_final_def proj_join3 only_in_old_def sorted_items_Cons)
  next
    case False
    show ?thesis
    proof (cases "0 < strcmp a b")
      case True
      then have ba: "strcmp b a < 0" using strcmp_antisym[of a b] by simp
      have "\<forall>y \<in> set (a # as) \<union> set bs. strcmp b y < 0"
        using 1(5) ba less_all[of b a as] 1(4) by (auto simp: sorted_items_Cons)
      then have "\<forall>y \<in> set (table_final KV_OP_PLUS (a # as) bs). strcmp b y < 0"
        using table_final_plus_set[of "a # as" bs] by blast
      then show ?thesis using False True 1(2)[OF False True 1(4) sb]
        by (simp add: table_final_def proj_join3 only_in_new_def sorted_items_Cons)
    next
      case eq: False
      then have e: "strcmp a b = 0" using False by simp
      then have e': "strcmp b a = 0" using strcmp_antisym[of a b] by simp
      have "\<forall>y \<in> set as \<union> set bs. strcmp b y < 0"
        using 1(5) e' less_all[of b a as] 1(4) by (auto simp: sorted_items_Cons)
      then have "\<forall>y \<in> set (table_final KV_OP_PLUS as bs). strcmp b y < 0"
        using table_final_plus_set[of as bs] by blast
      then show ?thesis using False eq 1(3)[OF False eq sa sb]
        by (simp add: table_final_def proj_join3 in_both_def sorted_items_Cons)
    qed
  qed
next
  case (2 b bs)
  have sb: "sorted_items bs" using 2(3) by (simp add: sorted_items_Cons)
  have "\<forall>y \<in> set (table_final KV_OP_PLUS [] bs). strcmp b y < 0"
    using table_final_plus_set[of "[]" bs] 2(3) by (auto simp: sorted_items_Cons)
  then show ?case using 2(1)[OF 2(2) sb]
    by (simp add: table_final_def proj_join3 only_in_new_def sorted_items_Cons)
next
  case (3 a as)
  have sa: "sorted_items as" using 3(2) by (simp add: sorted_items_Cons)
  have "\<forall>y \<in> set (table_final KV_OP_PLUS as []). strcmp a y < 0"
    using table_final_plus_set[of as "[]"] 3(2) by (auto simp: sorted_items_Cons)
  then show ?case using 3(1)[OF sa 3(3)]
    by (simp add: table_final_def proj_join3 only_in_old_def sorted_items_Cons)
next
  case 4
  then show ?case by (simp add: table_final_def sorted_items_Nil)
qed



lemma illegal_walk_aborts:
  "delta_op d = KV_OP_ILLEGAL \<Longrightarrow> as \<noteq> [] \<or> bs \<noteq> [] \<Longrightarrow> delta_walk as bs d = None"
  by (cases as; cases bs) (auto simp: old_has_item_def new_has_item_def both_have_item_def)

subsection \<open>Claims about the delta step\<close>



subsection \<open>Ownership policy of the overwrite callback\<close>

lemma mod_owned_iff:
  "flags_indicate_mod_owned fl \<noteq> 0 \<longleftrightarrow>
     fl AND KV_MOD_PRIVATE \<noteq> 0 \<or> fl AND KV_MOD_PROTECTED \<noteq> 0 \<or> fl AND KV_MOD_RESERVED \<noteq> 0"
  by (auto simp: flags_indicate_mod_owned_def bit.conj_disj_distrib or_eq_0_iff)

text \<open>
  C3, as stated, fails: a record that carries \<open>KV_MOD_RESERVED\<close> together with
  \<open>KV_MOD_PRIVATE\<close> (as every record written with \<open>DEFAULT_VALUE_FLAGS_CORE\<close> does) refuses
  another owner with \<open>EACCES\<close>, not with \<open>EBUSY\<close>.
\<close>

theorem overwrite_reserved_private_counterexample:
  "flags (get_vvalue (Scalar \<lparr>sv_gennum = 1, sv_seqnum = 1, sv_flags = KV_MOD_RESERVED OR KV_MOD_PRIVATE,
                               sv_owner = ''#core'', sv_data = ''x''\<rparr>)) AND KV_MOD_RESERVED \<noteq> 0 \<and>
   kv_cb_overwrite 0x10
     (Some (Scalar \<lparr>sv_gennum = 1, sv_seqnum = 1, sv_flags = KV_MOD_RESERVED OR KV_MOD_PRIVATE,
                    sv_owner = ''#core'', sv_data = ''x''\<rparr>))
     (Vector \<lparr>gennum = 1, seqnum = 2, flags = 0, owner = ''mod'', items = [''y'']\<rparr>)
     \<lparr>arg_owner = ''mod'', ret_code = - EREMOTEIO\<rparr> =
   (0, \<lparr>arg_owner = ''mod'', ret_code = - EACCES\<rparr>) \<and> - EACCES \<noteq> - EBUSY"
  by (simp add: kv_cb_overwrite_def get_vvalue_def KV_MOD_PRIVATE_def KV_MOD_RESERVED_def
      strcmp_def c_str_def EACCES_def EBUSY_def)

text \<open>
  C3, amended: a write through the overwrite callback on an existing record that carries any of
  \<open>KV_MOD_PRIVATE\<close>, \<open>KV_MOD_PROTECTED\<close>, \<open>KV_MOD_RESERVED\<close> is committed iff the owner of
  the record equals the owner of the writer; a refused write leaves the store as it is and
  reports the error of the first flag set in the order private (\<open>EACCES\<close>), protected
  (\<open>EPERM\<close>), reserved (\<open>EBUSY\<close>); on an unflagged or absent record the write always commits.
\<close>

theorem overwrite_policy:
  "kv_store_set_value store key new_value op_flags (overwrite_cb sync) update_arg =
     (case store key of
        None \<Rightarrow> overwrite_commit sync store key new_value op_flags update_arg
      | Some old_value \<Rightarrow>
          if flags_indicate_mod_owned (flags (get_vvalue old_value)) \<noteq> 0 \<and>
             strcmp (owner (get_vvalue old_value)) (owner (get_vvalue new_value)) \<noteq> 0
          then (store, None, update_arg\<lparr>ret_code := - overwrite_errno (flags (get_vvalue old_value))\<rparr>)
          else overwrite_commit sync store key new_value op_flags update_arg)"
proof (cases "store key")
  case None
  then show ?thesis
    by (simp add: kv_store_set_value_def overwrite_cb_def kv_cb_overwrite_def overwrite_commit_def Let_def)
next
  case (Some old_value)
  then show ?thesis
    by (simp add: kv_store_set_value_def overwrite_cb_def kv_cb_overwrite_def overwrite_commit_def
        mod_owned_iff overwrite_errno_def Let_def)
qed

subsection \<open>Size accounting of the absolute delta\<close>

















subsection \<open>Merge at the parent\<close>



lemma sync_unset_record:
  assumes "sync_record_unset value" and "get_op_from_key key = KV_OP_SET"
  shows "sync_main_kv_record sync store key value =
     Some (case store key of
             None \<Rightarrow> store
           | Some old_value \<Rightarrow>
               if flags_indicate_mod_owned (flags (get_vvalue old_value)) \<noteq> 0 \<and>
                  strcmp (owner (get_vvalue old_value)) (owner (get_vvalue value)) \<noteq> 0
               then store else store(key := None))"
  using assms
  by (cases "value"; cases "store key")
     (auto simp: sync_main_kv_record_def kv_store_unset_def kv_cb_main_unset_def Let_def)

text \<open>
  C10. An empty record that is not reserved unsets its key, unless the stored record is owned
  by another module (\<open>sync_unset_record\<close>), and an empty vector is kept when its flags have
  \<open>KV_MOD_RESERVED\<close> set. For a scalar the source compares the whole flags word with
  \<open>KV_MOD_RESERVED\<close> instead of testing the bit: the empty reservation a worker exports
  carries \<open>KV_PERSISTENT\<close> as well, so it is taken for an unset and nothing is stored, where
  the same record as a vector is stored.
\<close>

theorem reserved_scalar_is_unset:
  "sync_record_unset ex_reserved_scalar \<and>
   sync_main_kv_record 0x10 Map.empty '':::::k'' ex_reserved_scalar = Some Map.empty \<and>
   sync_main_kv_record 0x10 Map.empty '':::::k'' ex_reserved_vector =
     Some (Map.empty('':::::k'' \<mapsto> ex_reserved_vector))"
proof -
  have op: "get_op_from_key '':::::k'' = KV_OP_SET"
    by (simp add: get_op_from_key_def get_key_part_def KEY_PART_OP_def KEY_PART_CORE_def c_str_def)
  have u: "sync_record_unset ex_reserved_scalar"
    by (simp add: sync_record_unset_def ex_reserved_scalar_def KV_MOD_RESERVED_def KV_PERSISTENT_def)
  have nu: "\<not> sync_record_unset ex_reserved_vector"
    by (simp add: sync_record_unset_def ex_reserved_vector_def KV_MOD_RESERVED_def KV_PERSISTENT_def)
  have s: "sync_main_kv_record 0x10 Map.empty '':::::k'' ex_reserved_scalar = Some Map.empty"
    using u by (simp add: sync_main_kv_record_def kv_store_unset_def kv_cb_main_unset_def
        ex_reserved_scalar_def)
  have v: "sync_main_kv_record 0x10 Map.empty '':::::k'' ex_reserved_vector =
     Some (Map.empty('':::::k'' \<mapsto> ex_reserved_vector))"
    unfolding sync_main_kv_record_def Let_def
    using nu op by (simp add: ex_reserved_vector_def kv_store_set_value_def main_set_cb_def
        kv_cb_main_set_def)
  from u s v show ?thesis by simp
qed

subsection \<open>Capabilities of the scan phases\<close>





subsection \<open>Import of the udev environment\<close>










lemma dev_id_import_one: "dev_id (import_one ctx e) = dev_id ctx"
  by (cases e) (simp add: import_one_def)




lemma dev_id_foldl_import: "dev_id (foldl import_one ctx es) = dev_id ctx"
  by (induction es arbitrary: ctx) (simp_all add: dev_id_import_one)












lemma udev_import_mirror_example:
  "foldl (\<lambda>dev e. mirror_field (fst e) (snd e @ [CHR 0x00]) dev)
       (udev (devno_ctx (ex_ctx CMD_SCAN_PHASE_A_INIT) ex_devno)) [(''ACTION'', ''change''), (''SEQNUM'', ''12'')] =
   (udev (ex_ctx CMD_SCAN_PHASE_A_INIT))\<lparr>udev_major := 8, udev_minor := 0, udev_action := UDEV_ACTION_CHANGE, udev_seqnum := 12\<rparr>"
  by (simp add: mirror_field_def devno_ctx_def ex_devno_def devno_of_def gnu_dev_major_def gnu_dev_minor_def
      strcmp_def c_str_def UDEV_KEY_ACTION_def UDEV_KEY_SEQNUM_def UDEV_KEY_DEVPATH_def UDEV_KEY_DEVTYPE_def
      util_udev_str_to_udev_action_def strcasecmp_def c_tolower_def strtoull_def is_space_def is_digit_def
      digits_value_def Let_def ex_ctx_def)

subsection \<open>Requests with another protocol version\<close>




lemma matching_protocol_is_scheduled:
  "on_connection_event ex_env (ex_request 2) False 12 True =
     (0, (ex_request 2)\<lparr>conn_buf := (conn_buf (ex_request 2))\<lparr>buf_used := 0\<rparr>\<rparr>, True)"
  by (simp add: on_connection_event_def create_command_resource_def check_msg_def init_command_def
      sid_buffer_reset_def ex_request_def ex_env_def)

subsection \<open>Nesting of delta sets\<close>

lemma add_flags:
  "add_plus d x = Some d' \<Longrightarrow> delta_flags d' = delta_flags d"
  "add_minus d x = Some d' \<Longrightarrow> delta_flags d' = delta_flags d"
  "add_final d x = Some d' \<Longrightarrow> delta_flags d' = delta_flags d"
  by (auto simp: add_plus_def add_minus_def add_final_def split: option.splits)

lemma step_flags:
  "old_has_item d x = Some d' \<Longrightarrow> delta_flags d' = delta_flags d"
  "new_has_item d x = Some d' \<Longrightarrow> delta_flags d' = delta_flags d"
  "both_have_item d x = Some d' \<Longrightarrow> delta_flags d' = delta_flags d"
  by (auto simp: old_has_item_def new_has_item_def both_have_item_def add_flags
      split: kv_op_t.splits option.splits)

lemma delta_walk_flags:
  "delta_walk as bs d = Some d' \<Longrightarrow> delta_flags d' = delta_flags d"
proof (induction as bs d rule: delta_walk.induct)
  case (1 a as b bs d)
  then show ?case
    by (auto simp: step_flags split: if_splits option.splits)
next
  case (2 b bs d)
  then show ?case by (auto simp: step_flags split: option.splits)
next
  case (3 a as d)
  then show ?case by (auto simp: step_flags split: option.splits)
next
  case (4 d)
  then show ?case by simp
qed

lemma init_delta_buffers_flags:
  "init_delta_buffers d v m p f = Some d' \<Longrightarrow> delta_flags d' = delta_flags d"
  by (auto simp: init_delta_buffers_def split: option.splits)

lemma delta_step_calc_flags:
  "delta_flags (snd (delta_step_calc d old_vvalue new_vvalue)) = delta_flags d"
  by (auto simp: delta_step_calc_def Let_def destroy_delta_buffers_def destroy_unused_delta_buffers_def
      init_delta_buffers_flags delta_walk_flags split: option.splits)

lemma kv_cb_delta_step_flags:
  "delta_flags (snd (snd (kv_cb_delta_step d old_data new_data))) = delta_flags d"
  using delta_step_calc_flags[of d old_data new_data]
  by (auto simp: kv_cb_delta_step_def split: prod.splits option.splits)

lemma delta_step_cb_flags:
  "rel_flags (snd (snd (delta_step_cb old_data new_data rs))) = rel_flags rs"
proof (cases new_data)
  case (Scalar s)
  then show ?thesis by (simp add: delta_step_cb_def)
next
  case (Vector nv)
  show ?thesis
  proof (cases old_data)
    case None
    then show ?thesis
      using Vector kv_cb_delta_step_flags[of "rel_delta rs" None nv]
      by (auto simp: delta_step_cb_def rel_flags_def split: prod.splits)
  next
    case (Some ov)
    then show ?thesis
    proof (cases ov)
      case (Scalar s)
      then show ?thesis using Some Vector by (simp add: delta_step_cb_def)
    next
      case (Vector v)
      then show ?thesis
        using Some \<open>new_data = Vector nv\<close> kv_cb_delta_step_flags[of "rel_delta rs" "Some v" nv]
        by (auto simp: delta_step_cb_def rel_flags_def split: prod.splits)
    qed
  qed
qed

lemma store_step_flags:
  "kv_store_set_value store key v op_flags delta_step_cb rs = (store1, stored, rs1) \<Longrightarrow>
   rel_flags rs1 = rel_flags rs"
  using delta_step_cb_flags[of "store key" v rs]
  by (auto simp: kv_store_set_value_def Let_def split: prod.splits if_splits)

lemma delta_abs_calc_flags:
  "rel_flags (snd (delta_abs_calc vheader store rs)) = rel_flags rs"
  by (auto simp: delta_abs_calc_def delta_abs_calc_stored_def Let_def rel_flags_def split: option.splits)

text \<open>Without \<open>DELTA_WITH_REL\<close> a delta update makes no nested call.\<close>

lemma delta_update_no_rel:
  assumes "\<not> has_flag (rel_flags (ds_rel st)) DELTA_WITH_REL"
  shows "delta_update nested sync vheader opr st index \<noteq> Inl Out_Of_Fuel \<and>
         (\<forall>r st'. delta_update nested sync vheader opr st index = Inr (r, st') \<longrightarrow>
            rel_flags (ds_rel st') = rel_flags (ds_rel st))"
  using assms unfolding delta_update_def Let_def rel_flags_def
  by (auto split: option.splits prod.splits kv_op_t.splits)

lemma finish_flags:
  "kv_delta_set_finish r st = Inr (r', st') \<Longrightarrow> rel_flags (ds_rel st') = rel_flags (ds_rel st)"
  by (auto simp: kv_delta_set_finish_def rel_flags_def destroy_delta_buffers_def)

lemma finish_not_Inl: "kv_delta_set_finish r st \<noteq> Inl f"
  by (simp add: kv_delta_set_finish_def)



lemma keeps_bind:
  assumes "keeps_flags fl x"
    and "\<And>r st'. x = Inr (r, st') \<Longrightarrow> rel_flags (ds_rel st') = fl \<Longrightarrow> keeps_flags fl' (g (r, st'))"
  shows "keeps_flags fl' (case x of Inl f \<Rightarrow> Inl f | Inr p \<Rightarrow> g p)"
proof (cases x)
  case (Inl f)
  then show ?thesis using assms(1) by (simp add: keeps_flags_def)
next
  case (Inr p)
  obtain r st' where p: "p = (r, st')" by (cases p)
  have "rel_flags (ds_rel st') = fl"
    using assms(1) Inr p by (simp add: keeps_flags_def)
  from assms(2)[OF _ this] show ?thesis using Inr p by simp
qed

lemma keeps_not_fuel: "keeps_flags fl res \<Longrightarrow> res \<noteq> Inl Out_Of_Fuel"
  by (auto simp: keeps_flags_def)

lemma finish_keeps: "rel_flags (ds_rel st) = fl \<Longrightarrow> keeps_flags fl (kv_delta_set_finish r st)"
  by (simp add: keeps_flags_def kv_delta_set_finish_def rel_flags_def destroy_delta_buffers_def)

lemma delta_update_keeps:
  assumes "\<not> has_flag (rel_flags (ds_rel st)) DELTA_WITH_REL"
  shows "keeps_flags (rel_flags (ds_rel st)) (delta_update nested sync vheader opr st index)"
proof (cases "delta_update nested sync vheader opr st index")
  case (Inl f)
  then show ?thesis
    using delta_update_no_rel[OF assms, of nested sync vheader opr index]
    by (auto simp: keeps_flags_def)
next
  case (Inr p)
  then show ?thesis
    using delta_update_no_rel[OF assms, of nested sync vheader opr index]
    by (cases p) (auto simp: keeps_flags_def)
qed

lemma body_keeps:
  assumes nr: "\<not> has_flag (rel_flags (ds_rel st)) DELTA_WITH_REL"
  shows "keeps_flags (rel_flags (ds_rel st)) (kv_delta_set_body nested sync key v st index)"
proof -
  let ?fl = "rel_flags (ds_rel st)"
  obtain store1 stored rs1 where
    s: "kv_store_set_value (ds_store st) key (Vector v) KV_STORE_VALUE_NO_OP delta_step_cb (ds_rel st) =
        (store1, stored, rs1)"
    by (cases "kv_store_set_value (ds_store st) key (Vector v) KV_STORE_VALUE_NO_OP delta_step_cb (ds_rel st)")
  have f1: "rel_flags rs1 = ?fl"
    by (rule store_step_flags[OF s])
  let ?st1 = "st\<lparr>ds_store := store1, ds_rel := rs1\<rparr>"
  obtain ra rs2 where a: "delta_abs_calc v store1 rs1 = (ra, rs2)"
    by (cases "delta_abs_calc v store1 rs1")
  have f2: "rel_flags rs2 = ?fl"
    using delta_abs_calc_flags[of v store1 rs1] a f1 by simp
  let ?st2 = "?st1\<lparr>ds_rel := rs2\<rparr>"
  have fin1: "\<And>r. keeps_flags ?fl (kv_delta_set_finish r ?st1)"
    by (rule finish_keeps) (simp add: f1)
  have fin2: "\<And>r. keeps_flags ?fl (kv_delta_set_finish r ?st2)"
    by (rule finish_keeps) (simp add: f2)
  have mn: "keeps_flags ?fl
      (case delta_update nested sync v KV_OP_MINUS st3 index of
         Inl f \<Rightarrow> Inl f
       | Inr p \<Rightarrow> (case p of (rm, st4) \<Rightarrow>
           if rm < 0 then kv_delta_set_finish (- 1) st4 else kv_delta_set_finish 0 st4))"
    if f3: "rel_flags (ds_rel st3) = ?fl" for st3
  proof (rule keeps_bind)
    have "\<not> has_flag (rel_flags (ds_rel st3)) DELTA_WITH_REL"
      using nr f3 by simp
    from delta_update_keeps[OF this]
    show "keeps_flags ?fl (delta_update nested sync v KV_OP_MINUS st3 index)"
      using f3 by simp
  next
    fix r :: int and st' :: delta_state
    assume "rel_flags (ds_rel st') = ?fl"
    then show "keeps_flags ?fl (case (r, st') of (rm, st4) \<Rightarrow>
           if rm < 0 then kv_delta_set_finish (- 1) st4 else kv_delta_set_finish 0 st4)"
      by (simp add: finish_keeps)
  qed
  have pl: "keeps_flags ?fl
      (case delta_update nested sync v KV_OP_PLUS ?st2 index of
         Inl f \<Rightarrow> Inl f
       | Inr p \<Rightarrow> (case p of (rp, st3) \<Rightarrow>
           if rp < 0 then kv_delta_set_finish (- 1) st3
           else (case delta_update nested sync v KV_OP_MINUS st3 index of
                   Inl f \<Rightarrow> Inl f
                 | Inr p \<Rightarrow> (case p of (rm, st4) \<Rightarrow>
                     if rm < 0 then kv_delta_set_finish (- 1) st4 else kv_delta_set_finish 0 st4))))"
  proof (rule keeps_bind)
    have "\<not> has_flag (rel_flags (ds_rel ?st2)) DELTA_WITH_REL"
      using nr f2 by simp
    from delta_update_keeps[OF this]
    show "keeps_flags ?fl (delta_update nested sync v KV_OP_PLUS ?st2 index)"
      using f2 by simp
  next
    fix r :: int and st' :: delta_state
    assume f3: "rel_flags (ds_rel st') = ?fl"
    show "keeps_flags ?fl (case (r, st') of (rp, st3) \<Rightarrow>
           if rp < 0 then kv_delta_set_finish (- 1) st3
           else (case delta_update nested sync v KV_OP_MINUS st3 index of
                   Inl f \<Rightarrow> Inl f
                 | Inr p \<Rightarrow> (case p of (rm, st4) \<Rightarrow>
                     if rm < 0 then kv_delta_set_finish (- 1) st4 else kv_delta_set_finish 0 st4)))"
      using mn[OF f3] finish_keeps[OF f3] by simp
  qed
  show ?thesis
  proof (cases stored)
    case None
    then show ?thesis
      unfolding kv_delta_set_body_def s prod.case Let_def using fin1 by simp
  next
    case (Some sv)
    show ?thesis
      unfolding kv_delta_set_body_def s prod.case Let_def Some option.case a
      using fin1 fin2 pl by simp
  qed
qed

lemma rel_loop_fuel:
  assumes nested_ok: "\<And>key v st idx. \<not> has_flag (rel_flags (ds_rel st)) DELTA_WITH_REL \<Longrightarrow>
      keeps_flags (rel_flags (ds_rel st)) (nested key v st idx)"
    and "\<not> has_flag (rel_flags (ds_rel st)) DELTA_WITH_REL"
  shows "rel_loop nested rv idx xs st \<noteq> Inl Out_Of_Fuel"
  using assms(2)
proof (induction xs arbitrary: st)
  case Nil
  show ?case by simp
next
  case (Cons x xs)
  show ?case
  proof (cases "copy_ns_part_from_key x")
    case None
    then show ?thesis by simp
  next
    case (Some ns_part)
    let ?spec = "(cur_key_spec (ds_rel st))\<lparr>key_ns_part := ns_part\<rparr>"
    let ?st0 = "st\<lparr>ds_rel := (ds_rel st)\<lparr>cur_key_spec := ?spec\<rparr>\<rparr>"
    have nr0: "\<not> has_flag (rel_flags (ds_rel ?st0)) DELTA_WITH_REL"
      using Cons.prems by (simp add: rel_flags_def)
    note n = nested_ok[OF nr0, of "compose_key ?spec" rv idx]
    show ?thesis
    proof (cases "nested (compose_key ?spec) rv ?st0 idx")
      case (Inl f)
      then show ?thesis using n Some by (simp add: Let_def keeps_flags_def)
    next
      case (Inr res)
      obtain r st' where res: "res = (r, st')" by (cases res)
      have fl: "rel_flags (ds_rel st') = rel_flags (ds_rel st)"
        using n Inr res by (simp add: rel_flags_def keeps_flags_def)
      let ?st1 = "st'\<lparr>ds_rel := (ds_rel st')\<lparr>cur_key_spec := (cur_key_spec (ds_rel st'))\<lparr>key_ns_part := []\<rparr>\<rparr>\<rparr>"
      have "\<not> has_flag (rel_flags (ds_rel ?st1)) DELTA_WITH_REL"
        using Cons.prems fl by (simp add: rel_flags_def)
      from Cons.IH[OF this] show ?thesis
        using Some Inr res by (simp add: Let_def)
    qed
  qed
qed

lemma sum_bind_fuel:
  assumes "x \<noteq> Inl Out_Of_Fuel" and "\<And>r st'. g (r, st') \<noteq> Inl Out_Of_Fuel"
  shows "(case x of Inl f \<Rightarrow> Inl f | Inr p \<Rightarrow> g p) \<noteq> Inl Out_Of_Fuel"
  using assms by (cases x) auto

lemma delta_update_fuel:
  assumes nested_ok: "\<And>key v st idx. \<not> has_flag (rel_flags (ds_rel st)) DELTA_WITH_REL \<Longrightarrow>
      keeps_flags (rel_flags (ds_rel st)) (nested key v st idx)"
  shows "delta_update nested sync vheader opr st index \<noteq> Inl Out_Of_Fuel"
proof -
  have l: "rel_loop nested rv index xs st0 \<noteq> Inl Out_Of_Fuel"
    if "rel_flags (ds_rel st0) = DELTA_WITH_DIFF" for rv xs st0
    by (rule rel_loop_fuel[OF nested_ok])
       (simp_all add: that has_flag_def DELTA_WITH_DIFF_def DELTA_WITH_REL_def)
  have b: "(case rel_loop nested rv index xs st0 of Inl f \<Rightarrow> Inl f | Inr p \<Rightarrow> (case p of (r, st2) \<Rightarrow> Inr (r, h st2)))
             \<noteq> Inl Out_Of_Fuel"
    if "rel_flags (ds_rel st0) = DELTA_WITH_DIFF" for rv xs st0 h
    by (rule sum_bind_fuel[OF l[OF that]]) simp
  show ?thesis
  proof (cases opr)
    case KV_OP_ILLEGAL
    then show ?thesis by (simp add: delta_update_def)
  next
    case KV_OP_SET
    then show ?thesis by (simp add: delta_update_def)
  next
    case KV_OP_PLUS
    show ?thesis
      unfolding delta_update_def Let_def KV_OP_PLUS
      by (simp add: b rel_flags_def flip_key_specs_def split: option.splits prod.splits)
  next
    case KV_OP_MINUS
    show ?thesis
      unfolding delta_update_def Let_def KV_OP_MINUS
      by (simp add: b rel_flags_def flip_key_specs_def split: option.splits prod.splits)
  qed
qed

lemma body_fuel:
  assumes nested_ok: "\<And>key v st idx. \<not> has_flag (rel_flags (ds_rel st)) DELTA_WITH_REL \<Longrightarrow>
      keeps_flags (rel_flags (ds_rel st)) (nested key v st idx)"
  shows "kv_delta_set_body nested sync key v st index \<noteq> Inl Out_Of_Fuel"
proof -
  note d = delta_update_fuel[OF nested_ok]
  have mn: "(case delta_update nested sync v KV_OP_MINUS st3 index of
         Inl f \<Rightarrow> Inl f
       | Inr p \<Rightarrow> (case p of (rm, st4) \<Rightarrow>
           if rm < 0 then kv_delta_set_finish (- 1) st4 else kv_delta_set_finish 0 st4)) \<noteq> Inl Out_Of_Fuel" for st3
    by (rule sum_bind_fuel[OF d]) (auto simp: finish_not_Inl)
  have pl: "(case delta_update nested sync v KV_OP_PLUS st2 index of
         Inl f \<Rightarrow> Inl f
       | Inr p \<Rightarrow> (case p of (rp, st3) \<Rightarrow>
           if rp < 0 then kv_delta_set_finish (- 1) st3
           else (case delta_update nested sync v KV_OP_MINUS st3 index of
                   Inl f \<Rightarrow> Inl f
                 | Inr p \<Rightarrow> (case p of (rm, st4) \<Rightarrow>
                     if rm < 0 then kv_delta_set_finish (- 1) st4 else kv_delta_set_finish 0 st4)))) \<noteq> Inl Out_Of_Fuel" for st2
    by (rule sum_bind_fuel[OF d]) (auto simp: finish_not_Inl mn)
  show ?thesis
    unfolding kv_delta_set_body_def Let_def
    by (auto simp: finish_not_Inl pl split: option.splits prod.splits)
qed

text \<open>
  The nesting of \<open>_kv_delta_set\<close> and \<open>_delta_update\<close> is at most two deep: the nested
  call carries \<open>DELTA_WITH_DIFF\<close> only and makes no further call.
\<close>

lemma kv_delta_set_returns:
  "kv_delta_set sync key vvalue st index \<noteq> Inl Out_Of_Fuel"
proof -
  have "kv_delta_set sync key vvalue st index =
        kv_delta_set_body (kv_delta_set_body (kv_delta_set_fuel 0 sync) sync) sync key vvalue st index"
    by (simp add: kv_delta_set_def numeral_2_eq_2)
  moreover have "kv_delta_set_body (kv_delta_set_body (kv_delta_set_fuel 0 sync) sync) sync key vvalue st index
        \<noteq> Inl Out_Of_Fuel"
    by (rule body_fuel) (rule body_keeps)
  ultimately show ?thesis by simp
qed

subsection \<open>Relations between a group and its members\<close>

text \<open>
  In a snapshot that holds the relation both ways, removing the device from the group removes
  the device from the members of the group and the group from the \<open>#GIN\<close> record of the
  device; adding it to an empty snapshot stores both directions.
\<close>

lemma group_remove_example:
  "(case sid_ucmd_group_remove_current_dev 0x10 (Some ''mod'') (Some ex_group_ctx) KV_NS_MODULE (Some ''g'') of
      Inl f \<Rightarrow> False
    | Inr (r, None) \<Rightarrow> False
    | Inr (r, Some c) \<Rightarrow>
        map_option (\<lambda>v. items (get_vvalue v)) (kv_store_res c ex_group_key) = Some [] \<and>
        map_option (\<lambda>v. items (get_vvalue v)) (kv_store_res c ex_group_in_key) = Some [])"
  by code_simp

text \<open>
  C2 does not hold of the code. In an empty snapshot, \<open>sid_ucmd_group_add_current_dev\<close>
  stores the device under the members key of the group and the group under the \<open>#GIN\<close> key
  of the device, and records the absolute delta under the \<open>+\<close> key. A following
  \<open>sid_ucmd_group_remove_current_dev\<close> in the same snapshot finds that absolute delta, so
  \<open>_delta_update\<close> for \<open>KV_OP_PLUS\<close> goes on and reads \<open>rel_spec->delta->plus\<close>, which
  is NULL for a removal: the removal does not get to the reciprocal record.
\<close>

theorem group_add_then_remove_reads_null_buffer:
  "(case sid_ucmd_group_add_current_dev 0x10 (Some ''mod'') (Some (ex_ctx CMD_SCAN_PHASE_A_SCAN_CURRENT))
          KV_NS_MODULE (Some ''g'') of
      Inl f \<Rightarrow> False
    | Inr (r, None) \<Rightarrow> False
    | Inr (r, Some c) \<Rightarrow>
        map_option (\<lambda>v. items (get_vvalue v)) (kv_store_res c ex_group_key) = Some [''::D:8_0::'' @ [CHR 0x00]] \<and>
        map_option (\<lambda>v. items (get_vvalue v)) (kv_store_res c ex_group_in_key) = Some ['':USR:M:mod:g:'' @ [CHR 0x00]] \<and>
        (case sid_ucmd_group_remove_current_dev 0x10 (Some ''mod'') (Some c) KV_NS_MODULE (Some ''g'') of
           Inl Null_Buffer_Read \<Rightarrow> True
         | _ \<Rightarrow> False))"
  by code_simp

end
